theory Spec2Isabelle
  imports Main "HOL-Library.AList"
begin

section \<open>Data contracts (types.ts)\<close>

text \<open>
  The enums of the source are datatypes, its interfaces are records. An optional field
  \<^verbatim>\<open>f?: T\<close> is a field of type \<open>T option\<close>, \<open>None\<close> standing for \<^verbatim>\<open>undefined\<close>.
  A \<^verbatim>\<open>Record<string, T>\<close> is an association list with distinct keys, in insertion
  order: \<open>map_of\<close> reads a key, \<open>AList.update\<close> assigns one (in place when the key
  exists, at the end otherwise), and \<^verbatim>\<open>Object.values\<close> / \<^verbatim>\<open>Object.entries\<close>
  walk the list. (JavaScript lists keys that look like array indices first; the task
  ids of this program, \<^verbatim>\<open>task_...\<close> and \<^verbatim>\<open>sub_...\<close>, never do.) The task record
  is read by such ids only, which name no member of \<^verbatim>\<open>Object.prototype\<close>, so
  \<open>map_of\<close> is the whole read there; the hash records are read by file name, and their
  read is modelled with the inherited members, in the section on the integrity monitor.
\<close>

datatype StrictnessLevel = L1_VIBE | L2_LOGGED | L3_BALANCED | L4_ENGINEERED | L5_CRITICAL

fun strictness_value :: "StrictnessLevel \<Rightarrow> nat" where
  "strictness_value L1_VIBE = 1"
| "strictness_value L2_LOGGED = 2"
| "strictness_value L3_BALANCED = 3"
| "strictness_value L4_ENGINEERED = 4"
| "strictness_value L5_CRITICAL = 5"

datatype FocusState = IDLE | PLANNING | EXECUTING | VALIDATING | PANIC

datatype ItemStatus = Todo | Done

record ChecklistItem =
  item_id :: string
  item_text :: string
  item_status :: ItemStatus

record ScopeClaim =
  path :: string
  exclusive :: bool
  ownerTaskId :: string
  claim_createdAt :: nat

record TaskContract =
  taskId :: string
  title :: string
  goal :: string
  allowedScopes :: "string list"
  checklist :: "ChecklistItem list"
  strictness :: StrictnessLevel
  testCommand :: "string option"
  lastIntent :: "string option"
  filesToTouch :: "string list option"
  parentTaskId :: "string option"
  subTaskIds :: "string list option"
  claims :: "ScopeClaim list option"
  riskScore :: "int option"
  createdAt :: string
  updatedAt :: string

record DriftSession =
  sessionId :: string
  startTime :: nat
  currentState :: FocusState
  activeTaskId :: "string option"
  activeStepId :: "string option"
  isVerified :: bool
  intentFiled :: bool
  activeClaims :: "ScopeClaim list option"
  lastKnownFileHashes :: "(string \<times> string) list option"

record LogEntry =
  timestamp :: string
  action :: string
  log_taskId :: "string option"
  details :: "string option"

record DriftGuardState =
  version :: string
  session :: DriftSession
  tasks :: "(string \<times> TaskContract) list"
  logs :: "LogEntry list"

text \<open>
  Every \<^verbatim>\<open>throw\<close> of the source is a value: the two error classes of types.ts, the
  plain \<^verbatim>\<open>Error(message)\<close>, and the \<^verbatim>\<open>TypeError\<close> that JavaScript raises when a
  property of \<^verbatim>\<open>undefined\<close> is read.
\<close>

datatype error =
    StateTransitionError string FocusState "FocusState list"
  | IntentMissingError
  | Error string
  | TypeError

text \<open>An operation returns its result or its error, together with the state it leaves.\<close>

type_synonym 'r outcome = "(error + 'r) \<times> DriftGuardState"

section \<open>JavaScript helpers\<close>

text \<open>\<^verbatim>\<open>!s\<close> for an optional string: \<^verbatim>\<open>undefined\<close> and the empty string are falsy.\<close>

fun falsy :: "string option \<Rightarrow> bool" where
  "falsy None = True"
| "falsy (Some v) = (v = [])"

text \<open>\<^verbatim>\<open>xs.slice(-n)\<close>: the last \<open>n\<close> elements, all of them when there are fewer.\<close>

definition slice_last :: "nat \<Rightarrow> 'a list \<Rightarrow> 'a list" where
  "slice_last n xs = drop (length xs - n) xs"

text \<open>\<^verbatim>\<open>{...a, ...b}\<close>: the entries of \<open>b\<close> assigned over \<open>a\<close>, left to right.\<close>

definition spread :: "('k \<times> 'v) list \<Rightarrow> ('k \<times> 'v) list \<Rightarrow> ('k \<times> 'v) list" where
  "spread a b = fold (\<lambda>(k, v). AList.update k v) b a"

text \<open>\<^verbatim>\<open>xs.join(sep)\<close>.\<close>

fun join :: "string \<Rightarrow> string list \<Rightarrow> string" where
  "join sep [] = []"
| "join sep [x] = x"
| "join sep (x # y # ys) = x @ sep @ join sep (y # ys)"

text \<open>The decimal text of a number, as a template literal prints it.\<close>

fun digit_char :: "nat \<Rightarrow> char" where
  "digit_char n = char_of (48 + n)"

fun show_nat :: "nat \<Rightarrow> string" where
  "show_nat n = (if n < 10 then [digit_char n] else show_nat (n div 10) @ [digit_char (n mod 10)])"

section \<open>Scope manager (scope.ts)\<close>

text \<open>
  \<^verbatim>\<open>minimatch(p, pattern)\<close> is a library function outside the repository. Every
  function that calls it takes it as the parameter \<open>mm\<close>, with \<open>mm p pattern\<close> for
  \<^verbatim>\<open>minimatch(p, pattern)\<close>; the theorems hold for every matcher.
\<close>

type_synonym matcher = "string \<Rightarrow> string \<Rightarrow> bool"

text \<open>
  A stand-in for concrete evaluations: it accepts a path exactly when the path is the
  pattern's text. It is used below only on paths and patterns made of plain name segments
  separated by single slashes (no glob metacharacters, no empty or dot segments), where
  \<^verbatim>\<open>minimatch\<close> gives the same answer; on other inputs the two differ.
\<close>

definition literal_match :: matcher where
  "literal_match p pattern = (p = pattern)"

definition checkOverlap :: "matcher \<Rightarrow> string \<Rightarrow> string \<Rightarrow> bool" where
  "checkOverlap mm pathA pathB =
     (if pathA = pathB then True
      else if mm pathA pathB then True
      else if mm pathB pathA then True
      else False)"

text \<open>
  The parent test of \<^verbatim>\<open>checkConflict\<close>:
  \<^verbatim>\<open>requestorTask && requestorTask.parentTaskId === claim.ownerTaskId\<close>.
\<close>

definition ownedByParent :: "(string \<times> TaskContract) list \<Rightarrow> string \<Rightarrow> ScopeClaim \<Rightarrow> bool" where
  "ownedByParent ts requestorTaskId claim =
     (case map_of ts requestorTaskId of
        None \<Rightarrow> False
      | Some requestorTask \<Rightarrow> parentTaskId requestorTask = Some (ownerTaskId claim))"

text \<open>
  The loop over \<^verbatim>\<open>activeClaims\<close>; \<^verbatim>\<open>continue\<close> is the recursive call on the rest.
  Both branches after the overlap test return the claim, as in the source.
\<close>

fun checkConflict ::
  "matcher \<Rightarrow> string \<Rightarrow> string \<Rightarrow> ScopeClaim list \<Rightarrow> (string \<times> TaskContract) list
   \<Rightarrow> ScopeClaim option" where
  "checkConflict mm requestedPath requestorTaskId [] ts = None"
| "checkConflict mm requestedPath requestorTaskId (claim # rest) ts =
     (if ownerTaskId claim = requestorTaskId
        then checkConflict mm requestedPath requestorTaskId rest ts
      else if ownedByParent ts requestorTaskId claim
        then checkConflict mm requestedPath requestorTaskId rest ts
      else if checkOverlap mm requestedPath (path claim)
        then (if exclusive claim then Some claim else Some claim)
      else checkConflict mm requestedPath requestorTaskId rest ts)"

text \<open>
  \<^verbatim>\<open>validateDelegation\<close>: the inner loop looks for a covering parent pattern, the
  outer loop fails at the first child pattern that has none.
\<close>

fun covered :: "matcher \<Rightarrow> string list \<Rightarrow> string \<Rightarrow> bool" where
  "covered mm [] childPath = False"
| "covered mm (parentPath # rest) childPath =
     (if mm childPath parentPath \<or> childPath = parentPath then True
      else covered mm rest childPath)"

fun validateDelegation :: "matcher \<Rightarrow> string list \<Rightarrow> string list \<Rightarrow> bool" where
  "validateDelegation mm parentScope [] = True"
| "validateDelegation mm parentScope (childPath # rest) =
     (if \<not> covered mm parentScope childPath then False
      else validateDelegation mm parentScope rest)"

section \<open>State manager (state.ts)\<close>

text \<open>
  The manager's state is passed explicitly. What the source reads from outside is a
  parameter of the operation that reads it: \<open>now\<close> is the text of
  \<^verbatim>\<open>new Date().toISOString()\<close> (the clock reads of one operation are taken equal),
  \<open>uuid\<close> the text of \<^verbatim>\<open>uuidv4()\<close>, \<open>fs\<close> the file system seen through
  \<^verbatim>\<open>gitManager.listFiles\<close> and the MD5 digest (from a pattern list to the
  path-to-hash record of the files that match and can be read), and the answers of the
  revision-control adapter are plain values. \<^verbatim>\<open>syncToDisk\<close> only writes the state to
  disk and is left out.
\<close>

definition STATE_VERSION :: string where
  "STATE_VERSION = ''3.0.0''"

definition createInitialState :: "string \<Rightarrow> nat \<Rightarrow> DriftGuardState" where
  "createInitialState uuid nowMs =
     \<lparr> version = STATE_VERSION,
       session = \<lparr> sessionId = uuid, startTime = nowMs, currentState = IDLE,
                   activeTaskId = None, activeStepId = None,
                   isVerified = False, intentFiled = False,
                   activeClaims = Some [], lastKnownFileHashes = Some [] \<rparr>,
       tasks = [],
       logs = [] \<rparr>"

definition log :: "string \<Rightarrow> string \<Rightarrow> string option \<Rightarrow> string option \<Rightarrow> DriftGuardState \<Rightarrow> DriftGuardState" where
  "log now act tid det s =
     (let pushed = logs s @ [\<lparr> timestamp = now, action = act, log_taskId = tid, details = det \<rparr>]
      in s\<lparr> logs := (if length pushed > 100 then slice_last 100 pushed else pushed) \<rparr>)"

definition validateTransition :: "string \<Rightarrow> FocusState list \<Rightarrow> DriftGuardState \<Rightarrow> error option" where
  "validateTransition act allowedFrom s =
     (if currentState (session s) \<notin> set allowedFrom
      then Some (StateTransitionError act (currentState (session s)) allowedFrom)
      else None)"

text \<open>The reads \<^verbatim>\<open>x || []\<close> and \<^verbatim>\<open>x || {}\<close> of optional fields.\<close>

definition claims_or_empty :: "TaskContract \<Rightarrow> ScopeClaim list" where
  "claims_or_empty task = (case claims task of None \<Rightarrow> [] | Some cs \<Rightarrow> cs)"

definition refreshActiveClaims :: "DriftGuardState \<Rightarrow> DriftGuardState" where
  "refreshActiveClaims s =
     s\<lparr> session := (session s)\<lparr> activeClaims := Some (concat (map (claims_or_empty \<circ> snd) (tasks s))) \<rparr> \<rparr>"

type_synonym filesystem = "string list \<Rightarrow> (string \<times> string) list"

definition calculateFileHashes :: "filesystem \<Rightarrow> string list \<Rightarrow> (string \<times> string) list" where
  "calculateFileHashes fs patterns = (if patterns = [] then [] else fs patterns)"

definition active_or_empty :: "DriftSession \<Rightarrow> ScopeClaim list" where
  "active_or_empty sess = (case activeClaims sess of None \<Rightarrow> [] | Some cs \<Rightarrow> cs)"

definition known_or_empty :: "DriftSession \<Rightarrow> (string \<times> string) list" where
  "known_or_empty sess = (case lastKnownFileHashes sess of None \<Rightarrow> [] | Some k \<Rightarrow> k)"

subsection \<open>proposeTask\<close>

text \<open>
  \<^verbatim>\<open>allowedScopes || ['**']\<close> keeps the argument: an array is never falsy.
\<close>

definition proposeTask ::
  "string \<Rightarrow> string \<Rightarrow> string \<Rightarrow> string \<Rightarrow> string list \<Rightarrow> (string \<times> string) list
   \<Rightarrow> StrictnessLevel option \<Rightarrow> DriftGuardState \<Rightarrow> TaskContract outcome" where
  "proposeTask now uuid ttl gl scopes items strictnessArg s =
     (case validateTransition ''dg_propose_task'' [IDLE] s of
        Some e \<Rightarrow> (Inl e, s)
      | None \<Rightarrow>
          (let tid = ''task_'' @ take 8 uuid;
               newTask = \<lparr> taskId = tid, title = ttl, goal = gl, allowedScopes = scopes,
                           checklist = map (\<lambda>(i, t). \<lparr> item_id = i, item_text = t, item_status = Todo \<rparr>) items,
                           strictness = (case strictnessArg of None \<Rightarrow> L2_LOGGED | Some l \<Rightarrow> l),
                           testCommand = None, lastIntent = None, filesToTouch = None,
                           parentTaskId = None, subTaskIds = Some [], claims = Some [],
                           riskScore = None, createdAt = now, updatedAt = now \<rparr>;
               s1 = s\<lparr> tasks := AList.update tid newTask (tasks s) \<rparr>;
               s2 = s1\<lparr> session := (session s1)\<lparr> activeTaskId := Some tid \<rparr> \<rparr>;
               s3 = log now ''dg_propose_task'' (Some tid) (Some (''Task proposed: '' @ ttl)) s2
           in (Inr newTask, s3)))"

subsection \<open>beginStep\<close>

record StepResult =
  step_taskId :: string
  step_stepId :: string
  step_state :: FocusState

definition beginStep :: "string \<Rightarrow> string \<Rightarrow> string option \<Rightarrow> DriftGuardState \<Rightarrow> StepResult outcome" where
  "beginStep now uuid stepIdArg s =
     (case validateTransition ''dg_begin_step'' [PLANNING, IDLE] s of
        Some e \<Rightarrow> (Inl e, s)
      | None \<Rightarrow>
          (if falsy (activeTaskId (session s))
           then (Inl (Error ''No active task. Use dg_propose_task first.''), s)
           else
             (let activeStep = (case stepIdArg of None \<Rightarrow> ''step_'' @ take 8 uuid | Some i \<Rightarrow> i);
                  s1 = s\<lparr> session := (session s)\<lparr> activeStepId := Some activeStep,
                                                   currentState := EXECUTING \<rparr> \<rparr>;
                  s2 = log now ''dg_begin_step'' (activeTaskId (session s1))
                         (Some (''Started step: '' @ activeStep)) s1
              in (Inr \<lparr> step_taskId = the (activeTaskId (session s2)), step_stepId = activeStep,
                         step_state = EXECUTING \<rparr>, s2))))"

subsection \<open>checkpoint\<close>

record CheckpointResult =
  cp_taskId :: string
  completedItems :: nat
  totalItems :: nat
  gitNoteWritten :: bool

text \<open>
  \<^verbatim>\<open>task.checklist.find(i => i.id === id)\<close> followed by the assignment: the first item
  with that id is marked done.
\<close>

fun markDone :: "string \<Rightarrow> ChecklistItem list \<Rightarrow> ChecklistItem list" where
  "markDone i [] = []"
| "markDone i (item # rest) =
     (if item_id item = i then item\<lparr> item_status := Done \<rparr> # rest else item # markDone i rest)"

text \<open>
  \<open>changedFiles\<close>, \<open>isRepo\<close> and \<open>noteWritten\<close> are the answers of
  \<^verbatim>\<open>getChangedFiles\<close>, \<^verbatim>\<open>isGitRepo\<close> and \<^verbatim>\<open>writeNote\<close>; none of them throws.
\<close>

definition checkpoint ::
  "string \<Rightarrow> string list \<Rightarrow> bool \<Rightarrow> bool \<Rightarrow> filesystem \<Rightarrow> string \<Rightarrow> string list
   \<Rightarrow> DriftGuardState \<Rightarrow> CheckpointResult outcome" where
  "checkpoint now changedFiles isRepo noteWritten fs summary completedChecklistIds s =
     (case validateTransition ''dg_checkpoint'' [EXECUTING] s of
        Some e \<Rightarrow> (Inl e, s)
      | None \<Rightarrow>
          (if \<not> intentFiled (session s) then (Inl IntentMissingError, s)
           else if falsy (activeTaskId (session s)) then (Inl (Error ''No active task found''), s)
           else
             (case map_of (tasks s) (the (activeTaskId (session s))) of
                None \<Rightarrow> (Inl (Error ''No active task found''), s)
              | Some task \<Rightarrow>
                  (let tid = the (activeTaskId (session s));
                       cl = fold markDone completedChecklistIds (checklist task);
                       task1 = task\<lparr> checklist := cl, updatedAt := now \<rparr>;
                       allDone = list_all (\<lambda>i. item_status i = Done) cl;
                       result = \<lparr> cp_taskId = tid,
                                  completedItems = length (filter (\<lambda>i. item_status i = Done) cl),
                                  totalItems = length cl,
                                  gitNoteWritten = (isRepo \<and> changedFiles \<noteq> [] \<and> noteWritten) \<rparr>;
                       sess1 = (case claims task1 of
                                  None \<Rightarrow> session s
                                | Some cs \<Rightarrow>
                                    (session s)\<lparr> lastKnownFileHashes :=
                                      Some (spread (known_or_empty (session s))
                                                   (calculateFileHashes fs (map path cs))) \<rparr>);
                       task2 = (case claims task1 of None \<Rightarrow> task1 | Some cs \<Rightarrow> task1\<lparr> claims := Some [] \<rparr>);
                       s1 = s\<lparr> tasks := AList.update tid task2 (tasks s), session := sess1 \<rparr>;
                       s2 = (case claims task1 of None \<Rightarrow> s1 | Some cs \<Rightarrow> refreshActiveClaims s1);
                       s3 = s2\<lparr> session := (session s2)\<lparr> currentState := IDLE, activeStepId := None,
                                                          intentFiled := False, isVerified := False \<rparr> \<rparr>;
                       s4 = (if allDone then s3\<lparr> session := (session s3)\<lparr> activeTaskId := None \<rparr> \<rparr> else s3);
                       s5 = log now ''dg_checkpoint'' (Some tid) (Some summary) s4
                   in (Inr result, s5)))))"

subsection \<open>panic\<close>

record HelpPacket =
  currentTaskGoal :: "string option"
  lastLogs :: "LogEntry list"
  panicReason :: string
  hp_currentState :: FocusState

definition panic :: "string \<Rightarrow> string \<Rightarrow> DriftGuardState \<Rightarrow> HelpPacket outcome" where
  "panic now reason s =
     (let tid = activeTaskId (session s);
          task = (if falsy tid then None else map_of (tasks s) (the tid));
          s1 = s\<lparr> session := (session s)\<lparr> currentState := PANIC \<rparr> \<rparr>;
          s2 = log now ''dg_panic'' tid (Some reason) s1
      in (Inr \<lparr> currentTaskGoal = map_option goal task, lastLogs = slice_last 3 (logs s2),
                 panicReason = reason, hp_currentState = PANIC \<rparr>, s2))"

subsection \<open>reportIntent\<close>

text \<open>
  \<^verbatim>\<open>task.lastIntent = intent\<close> on a task id that keys no task reads a property of
  \<^verbatim>\<open>undefined\<close> and throws.
\<close>

definition reportIntent ::
  "string \<Rightarrow> string \<Rightarrow> string \<Rightarrow> string list \<Rightarrow> DriftGuardState \<Rightarrow> StepResult outcome" where
  "reportIntent now uuid intent files s =
     (case validateTransition ''dg_report_intent'' [PLANNING, IDLE] s of
        Some e \<Rightarrow> (Inl e, s)
      | None \<Rightarrow>
          (if falsy (activeTaskId (session s))
           then (Inl (Error ''No active task. Use dg_propose_task first.''), s)
           else
             (case map_of (tasks s) (the (activeTaskId (session s))) of
                None \<Rightarrow> (Inl TypeError, s)
              | Some task \<Rightarrow>
                  (let tid = the (activeTaskId (session s));
                       task1 = task\<lparr> lastIntent := Some intent, filesToTouch := Some files,
                                       updatedAt := now \<rparr>;
                       stepId = ''step_'' @ take 8 uuid;
                       s1 = s\<lparr> tasks := AList.update tid task1 (tasks s),
                               session := (session s)\<lparr> activeStepId := Some stepId,
                                                        currentState := EXECUTING,
                                                        intentFiled := True \<rparr> \<rparr>;
                       s2 = log now ''dg_report_intent'' (Some tid) (Some (take 100 intent)) s1
                   in (Inr \<lparr> step_taskId = tid, step_stepId = stepId, step_state = EXECUTING \<rparr>, s2)))))"

subsection \<open>verify, explainChange, setTestCommand\<close>

text \<open>
  \<^verbatim>\<open>execAsync\<close> resolves with the two output streams or rejects with an error object;
  \<open>run\<close> maps the command to what happened. The error's \<^verbatim>\<open>code\<close> is the exit status of
  the command, or the text of a Node error code such as
  \<^verbatim>\<open>ERR_CHILD_PROCESS_STDIO_MAXBUFFER\<close>; \<^verbatim>\<open>error.code || 1\<close> passes either on
  unless it is missing, 0 or empty.
\<close>

datatype ErrorCode = NumCode int | StrCode string

fun code_falsy :: "ErrorCode option \<Rightarrow> bool" where
  "code_falsy None = True"
| "code_falsy (Some (NumCode n)) = (n = 0)"
| "code_falsy (Some (StrCode t)) = (t = [])"

datatype ExecOutcome =
    Resolved string string
  | Rejected "ErrorCode option" "string option" "string option" string

record VerifyResult =
  success :: bool
  command :: string
  stdout :: string
  stderr :: string
  exitCode :: ErrorCode

definition verify :: "string \<Rightarrow> (string \<Rightarrow> ExecOutcome) \<Rightarrow> DriftGuardState \<Rightarrow> VerifyResult outcome" where
  "verify now run s =
     (case validateTransition ''dg_verify'' [EXECUTING] s of
        Some e \<Rightarrow> (Inl e, s)
      | None \<Rightarrow>
          (if falsy (activeTaskId (session s)) then (Inl (Error ''No active task found''), s)
           else
             (case map_of (tasks s) (the (activeTaskId (session s))) of
                None \<Rightarrow> (Inl (Error ''No active task found''), s)
              | Some task \<Rightarrow>
                  (let tid = the (activeTaskId (session s));
                       cmd = (if falsy (testCommand task) then ''echo '' @ [CHR 0x22] @ ''No test command configured'' @ [CHR 0x22]
                              else the (testCommand task));
                       result = (case run cmd of
                                   Resolved out err \<Rightarrow>
                                     \<lparr> success = True, command = cmd, stdout = out, stderr = err,
                                       exitCode = NumCode 0 \<rparr>
                                 | Rejected code out err msg \<Rightarrow>
                                     \<lparr> success = False, command = cmd,
                                       stdout = (if falsy out then [] else the out),
                                       stderr = (if \<not> falsy err then the err else msg),
                                       exitCode = (if code_falsy code then NumCode 1
                                                   else the code) \<rparr>);
                       s1 = s\<lparr> session := (session s)\<lparr> isVerified := success result \<rparr> \<rparr>;
                       s2 = log now ''dg_verify'' (Some tid)
                              (Some (if success result then ''PASS'' else ''FAIL'')) s1
                   in (Inr result, s2)))))"

record ExplainResult =
  ex_intent :: string
  changes :: string
  verification :: string
  diffSummary :: string

definition explainChange ::
  "string \<Rightarrow> string \<Rightarrow> string list \<Rightarrow> DriftGuardState \<Rightarrow> ExplainResult outcome" where
  "explainChange now diffStat changedFiles s =
     (case validateTransition ''dg_explain_change'' [EXECUTING] s of
        Some e \<Rightarrow> (Inl e, s)
      | None \<Rightarrow>
          (if falsy (activeTaskId (session s)) then (Inl (Error ''No active task found''), s)
           else
             (case map_of (tasks s) (the (activeTaskId (session s))) of
                None \<Rightarrow> (Inl (Error ''No active task found''), s)
              | Some task \<Rightarrow>
                  (let tid = the (activeTaskId (session s));
                       n = show_nat (length changedFiles);
                       result =
                         \<lparr> ex_intent = (if falsy (lastIntent task) then ''No intent was declared''
                                         else the (lastIntent task)),
                           changes = (if length changedFiles > 0
                                      then ''Modified '' @ n @ '' file(s): ''
                                           @ join '', '' (take 5 changedFiles)
                                           @ (if length changedFiles > 5 then ''...'' else [])
                                      else ''No files changed''),
                           verification = (if falsy (testCommand task)
                                           then ''No test command configured. Consider adding one with dg_propose_task.''
                                           else ''Run: `'' @ the (testCommand task) @ ''`''),
                           diffSummary = diffStat \<rparr>;
                       s1 = log now ''dg_explain_change'' (Some tid) (Some (n @ '' files changed'')) s
                   in (Inr result, s1)))))"

definition setTestCommand :: "string \<Rightarrow> string \<Rightarrow> DriftGuardState \<Rightarrow> unit outcome" where
  "setTestCommand now cmd s =
     (if falsy (activeTaskId (session s)) then (Inl (Error ''No active task found''), s)
      else
        (case map_of (tasks s) (the (activeTaskId (session s))) of
           None \<Rightarrow> (Inl (Error ''No active task found''), s)
         | Some task \<Rightarrow>
             (let tid = the (activeTaskId (session s));
                  s1 = s\<lparr> tasks := AList.update tid (task\<lparr> testCommand := Some cmd, updatedAt := now \<rparr>) (tasks s) \<rparr>;
                  s2 = log now ''set_test_command'' (Some tid) (Some cmd) s1
              in (Inr (), s2))))"

subsection \<open>claimScope\<close>

record ClaimResult =
  granted :: bool
  conflicts :: "ScopeClaim list"

text \<open>
  The loop over the requested paths fills two arrays: the conflicts found and the claims
  to commit. \<open>chk\<close> is the conflict check of a path, \<open>mk\<close> builds the new claim.
\<close>

fun scanPaths ::
  "(string \<Rightarrow> ScopeClaim option) \<Rightarrow> (string \<Rightarrow> ScopeClaim) \<Rightarrow> string list
   \<Rightarrow> ScopeClaim list \<times> ScopeClaim list" where
  "scanPaths chk mk [] = ([], [])"
| "scanPaths chk mk (p # ps) =
     (case chk p of
        Some conflict \<Rightarrow> (conflict # fst (scanPaths chk mk ps), snd (scanPaths chk mk ps))
      | None \<Rightarrow> (fst (scanPaths chk mk ps), mk p # snd (scanPaths chk mk ps)))"

text \<open>
  \<open>nowMs\<close> is \<^verbatim>\<open>Date.now()\<close>. \<^verbatim>\<open>task.claims\<close> on an active id that keys no task
  reads a property of \<^verbatim>\<open>undefined\<close> and throws.
\<close>

definition claimScope ::
  "string \<Rightarrow> nat \<Rightarrow> filesystem \<Rightarrow> matcher \<Rightarrow> string list \<Rightarrow> bool \<Rightarrow> DriftGuardState
   \<Rightarrow> ClaimResult outcome" where
  "claimScope now nowMs fs mm paths excl s =
     (if falsy (activeTaskId (session s))
      then (Inl (Error ''No active task to claim scope for.''), s)
      else
        (case map_of (tasks s) (the (activeTaskId (session s))) of
           None \<Rightarrow> (Inl TypeError, s)
         | Some task \<Rightarrow>
             (let tid = the (activeTaskId (session s));
                  task0 = (case claims task of None \<Rightarrow> task\<lparr> claims := Some [] \<rparr> | Some cs \<Rightarrow> task);
                  s0 = s\<lparr> tasks := AList.update tid task0 (tasks s) \<rparr>;
                  allActiveClaims = active_or_empty (session s0);
                  scanned = scanPaths (\<lambda>p. checkConflict mm p tid allActiveClaims (tasks s0))
                              (\<lambda>p. \<lparr> path = p, exclusive = excl, ownerTaskId = tid,
                                      claim_createdAt = nowMs \<rparr>) paths;
                  found = fst scanned;
                  newClaims = snd scanned
              in if length found > 0 then (Inr \<lparr> granted = False, conflicts = found \<rparr>, s0)
                 else
                   (let task1 = task0\<lparr> claims := Some (claims_or_empty task0 @ newClaims) \<rparr>;
                        s1 = refreshActiveClaims (s0\<lparr> tasks := AList.update tid task1 (tasks s0) \<rparr>);
                        hashes = calculateFileHashes fs (map path (claims_or_empty task1));
                        s2 = s1\<lparr> session := (session s1)\<lparr> lastKnownFileHashes :=
                                 Some (spread (known_or_empty (session s1)) hashes) \<rparr> \<rparr>;
                        s3 = log now ''dg_claim_scope'' (Some tid)
                               (Some (''Granted active claims: '' @ join '', '' (map path newClaims))) s2
                    in (Inr \<lparr> granted = True, conflicts = [] \<rparr>, s3)))))"

subsection \<open>delegateTask\<close>

text \<open>
  \<^verbatim>\<open>this.state.tasks[parentTaskId]\<close> with no active task reads the key
  \<^verbatim>\<open>"undefined"\<close>; \<^verbatim>\<open>parentTask.claims\<close> on a missing task throws.
\<close>

definition delegateTask ::
  "string \<Rightarrow> string \<Rightarrow> matcher \<Rightarrow> string \<Rightarrow> string \<Rightarrow> string list \<Rightarrow> DriftGuardState
   \<Rightarrow> TaskContract outcome" where
  "delegateTask now uuid mm subTaskTitle subTaskGoal subScope s =
     (case validateTransition ''dg_delegate'' [EXECUTING] s of
        Some e \<Rightarrow> (Inl e, s)
      | None \<Rightarrow>
          (let parentKey = (case activeTaskId (session s) of None \<Rightarrow> ''undefined'' | Some t \<Rightarrow> t)
           in case map_of (tasks s) parentKey of
                None \<Rightarrow> (Inl TypeError, s)
              | Some parentTask \<Rightarrow>
                  (let parentClaims = map path (claims_or_empty parentTask)
                   in if \<not> validateDelegation mm parentClaims subScope \<and> length parentClaims > 0
                      then (Inl (Error ''Delegation Failed: Child scope is not contained within Parent's active claims.''), s)
                      else
                        (let subTaskId = ''sub_'' @ take 8 uuid;
                             subTask = \<lparr> taskId = subTaskId, title = subTaskTitle, goal = subTaskGoal,
                                         allowedScopes = subScope, checklist = [],
                                         strictness = strictness parentTask,
                                         testCommand = None, lastIntent = None, filesToTouch = None,
                                         parentTaskId = activeTaskId (session s),
                                         subTaskIds = Some [], claims = Some [],
                                         riskScore = None, createdAt = now, updatedAt = now \<rparr>;
                             parent1 = parentTask\<lparr> subTaskIds :=
                                         Some ((case subTaskIds parentTask of None \<Rightarrow> [] | Some l \<Rightarrow> l)
                                               @ [subTaskId]) \<rparr>;
                             s1 = s\<lparr> tasks := AList.update subTaskId subTask
                                                 (AList.update parentKey parent1 (tasks s)) \<rparr>;
                             s2 = log now ''dg_delegate'' (activeTaskId (session s))
                                    (Some (''Delegated sub-task '' @ subTaskId @ '': '' @ subTaskTitle)) s1
                         in (Inr subTask, s2)))))"

section \<open>Risk analyzer (risk.ts)\<close>

text \<open>
  What the revision-control adapter answers for a path: the directory is no repository,
  the log command fails, or it lists the entries of the last 30 days, at most 100
  (\<^verbatim>\<open>--max-count\<close>), given here by their author e-mails. \<^verbatim>\<open>logs.total\<close> is the
  number of entries listed.
\<close>

datatype GitLogAnswer = NotRepo | LogFailed | LogOk "string list"

text \<open>The reason texts, without their wording.\<close>

datatype RiskReason =
    NotAGitRepository
  | ErrorAccessingGitLogs
  | LowActivity nat
  | ModerateActivity
  | HighActivity nat
  | CriticalHotspot nat nat

record RiskResult =
  score :: int
  reason :: RiskReason

text \<open>\<^verbatim>\<open>toLowerCase\<close> on the letters A to Z, and \<^verbatim>\<open>s.includes(sub)\<close>.\<close>

definition lower_char :: "char \<Rightarrow> char" where
  "lower_char c = (if 65 \<le> (of_char c :: nat) \<and> (of_char c :: nat) \<le> 90
                   then char_of ((of_char c :: nat) + 32) else c)"

definition toLowerCase :: "string \<Rightarrow> string" where
  "toLowerCase s = map lower_char s"

fun includes_str :: "string \<Rightarrow> string \<Rightarrow> bool" where
  "includes_str [] sub = (sub = [])"
| "includes_str (c # cs) sub = (take (length sub) (c # cs) = sub \<or> includes_str cs sub)"

definition isTest :: "string \<Rightarrow> bool" where
  "isTest targetPath =
     (includes_str (toLowerCase targetPath) ''test'' \<or> includes_str (toLowerCase targetPath) ''spec'')"

definition calculateRisk :: "GitLogAnswer \<Rightarrow> string \<Rightarrow> RiskResult" where
  "calculateRisk git targetPath =
     (case git of
        NotRepo \<Rightarrow> \<lparr> score = 0, reason = NotAGitRepository \<rparr>
      | LogFailed \<Rightarrow> \<lparr> score = 0, reason = ErrorAccessingGitLogs \<rparr>
      | LogOk emails \<Rightarrow>
          (let commitCount = length emails;
               authors = length (remdups emails);
               score0 = int commitCount * 2 + int authors * 5;
               score1 = (if isTest targetPath then max 0 (score0 - 20) else score0);
               score2 = min 100 score1;
               why = (if score2 > 70 then CriticalHotspot commitCount authors
                      else if score2 > 40 then HighActivity commitCount
                      else if score2 > 20 then ModerateActivity
                      else LowActivity commitCount)
           in \<lparr> score = score2, reason = why \<rparr>))"

text \<open>\<^verbatim>\<open>task.riskScore || 0\<close>: an absent score counts as 0.\<close>

definition analyzeRisk :: "GitLogAnswer \<Rightarrow> string \<Rightarrow> DriftGuardState \<Rightarrow> RiskResult outcome" where
  "analyzeRisk git targetPath s =
     (let result = calculateRisk git targetPath
      in if falsy (activeTaskId (session s)) then (Inr result, s)
         else
           (case map_of (tasks s) (the (activeTaskId (session s))) of
              None \<Rightarrow> (Inl TypeError, s)
            | Some task \<Rightarrow>
                (Inr result,
                 s\<lparr> tasks := AList.update (the (activeTaskId (session s)))
                      (task\<lparr> riskScore := Some (max (case riskScore task of None \<Rightarrow> 0 | Some r \<Rightarrow> r)
                                                     (score result)) \<rparr>)
                      (tasks s) \<rparr>)))"

section \<open>Integrity monitor (state.ts, healthCheck)\<close>

datatype HealthStatus = CLEAN | DIRTY | NO_CLAIMS

record HealthResult =
  status :: HealthStatus
  dirtyFiles :: "string list"

text \<open>
  The two hash records are plain objects, and \<^verbatim>\<open>healthCheck\<close> reads them with
  \<^verbatim>\<open>obj[file]\<close>. That read gives the object's own entry when it has one; otherwise it
  gives what \<^verbatim>\<open>Object.prototype\<close> holds under that name (a function, or the prototype
  itself for \<^verbatim>\<open>__proto__\<close>), and \<^verbatim>\<open>undefined\<close> for every other name.
\<close>

datatype jsval = Undefined | Str string | Inherited

definition prototypeNames :: "string list" where
  "prototypeNames =
     [''constructor'', ''__defineGetter__'', ''__defineSetter__'', ''hasOwnProperty'',
      ''__lookupGetter__'', ''__lookupSetter__'', ''isPrototypeOf'', ''propertyIsEnumerable'',
      ''toString'', ''valueOf'', ''__proto__'', ''toLocaleString'']"

definition js_get :: "(string \<times> string) list \<Rightarrow> string \<Rightarrow> jsval" where
  "js_get obj key =
     (case map_of obj key of
        Some v \<Rightarrow> Str v
      | None \<Rightarrow> if key \<in> set prototypeNames then Inherited else Undefined)"

text \<open>\<^verbatim>\<open>!v\<close>: \<^verbatim>\<open>undefined\<close> and the empty string are falsy, a function or object is not.\<close>

fun js_falsy :: "jsval \<Rightarrow> bool" where
  "js_falsy Undefined = True"
| "js_falsy (Str v) = (v = [])"
| "js_falsy Inherited = False"

text \<open>
  The first loop walks the current hashes, the second the known ones; each pushes the
  file name with its tag. \<^verbatim>\<open>known !== currentHash\<close> compares what was read with the
  current hash text, so an inherited member always differs.
\<close>

definition changedEntry :: "(string \<times> string) list \<Rightarrow> string \<times> string \<Rightarrow> string list" where
  "changedEntry knownHashes e =
     (case e of (file, currentHash) \<Rightarrow>
        (if js_falsy (js_get knownHashes file) then [file @ '' (NEW)'']
         else if js_get knownHashes file \<noteq> Str currentHash then [file @ '' (MODIFIED)'']
         else []))"

definition deletedEntry ::
  "matcher \<Rightarrow> string list \<Rightarrow> (string \<times> string) list \<Rightarrow> string \<times> string \<Rightarrow> string list" where
  "deletedEntry mm patterns currentHashes e =
     (case e of (file, known) \<Rightarrow>
        (if js_falsy (js_get currentHashes file)
         then (if list_ex (\<lambda>p. mm file p) patterns then [file @ '' (DELETED)''] else [])
         else []))"

definition healthCheck :: "matcher \<Rightarrow> filesystem \<Rightarrow> DriftGuardState \<Rightarrow> HealthResult" where
  "healthCheck mm fs s =
     (let cl = active_or_empty (session s)
      in if length cl = 0 then \<lparr> status = NO_CLAIMS, dirtyFiles = [] \<rparr>
         else
           (let patterns = map path cl;
                currentHashes = calculateFileHashes fs patterns;
                knownHashes = known_or_empty (session s);
                dirty = concat (map (changedEntry knownHashes) currentHashes)
                        @ concat (map (deletedEntry mm patterns currentHashes) knownHashes)
            in if length dirty > 0 then \<lparr> status = DIRTY, dirtyFiles = dirty \<rparr>
               else \<lparr> status = CLEAN, dirtyFiles = [] \<rparr>))"

section \<open>Lifecycle (state.ts: reset, hydrate, initialize)\<close>

definition reset :: "string \<Rightarrow> string \<Rightarrow> nat \<Rightarrow> DriftGuardState \<Rightarrow> DriftGuardState" where
  "reset now uuid nowMs s = log now ''reset'' None (Some ''State reset'') (createInitialState uuid nowMs)"

text \<open>
  \<open>disk\<close> is the parsed content of tasks.json, \<open>None\<close> when the file is missing or
  unreadable. A version mismatch is logged into the state that is replaced right after.
  The parsed snapshot is taken to carry every field of the state, as every snapshot that
  \<^verbatim>\<open>syncToDisk\<close> writes does; a hand-edited file without a log list, on which the
  logging after the replacement throws and \<^verbatim>\<open>hydrate\<close> answers false, is outside
  this model.
\<close>

definition hydrate :: "string \<Rightarrow> DriftGuardState option \<Rightarrow> DriftGuardState \<Rightarrow> bool \<times> DriftGuardState" where
  "hydrate now disk s =
     (case disk of
        None \<Rightarrow> (False, s)
      | Some parsed \<Rightarrow>
          (True, log now ''hydrate'' None (Some ''Session restored from disk'') parsed))"

datatype InitStatus = Created | Exists

definition initialize ::
  "string \<Rightarrow> string \<Rightarrow> nat \<Rightarrow> bool \<Rightarrow> DriftGuardState option \<Rightarrow> string \<Rightarrow> DriftGuardState
   \<Rightarrow> InitStatus \<times> DriftGuardState" where
  "initialize now uuid nowMs dirExists disk driftGuardPath s =
     (let st = (if dirExists then Exists else Created);
          s1 = (if dirExists then snd (hydrate now disk s) else s);
          s2 = (if st = Created then createInitialState uuid nowMs else s1);
          s3 = log now ''dg_init'' None (Some (''Initialized at '' @ driftGuardPath)) s2
      in (st, s3))"

section \<open>Concrete sessions\<close>

text \<open>An empty project directory: no pattern matches any file.\<close>

definition empty_fs :: filesystem where
  "empty_fs patterns = []"

text \<open>A fresh session in which one task was proposed and a step begun.\<close>

definition fresh :: DriftGuardState where
  "fresh = createInitialState ''5e5e5e5e-0000-4000-8000-000000000000'' 0"

definition proposed :: DriftGuardState where
  "proposed = snd (proposeTask ''2026-01-01T00:00:00.000Z'' ''9f8e7d6c-0000-4000-8000-000000000000''
                     ''T'' ''G'' [''src/a.ts''] [(''1'', ''x'')] None fresh)"

definition started :: DriftGuardState where
  "started = snd (beginStep ''2026-01-01T00:00:01.000Z'' ''0a1b2c3d-0000-4000-8000-000000000000'' None proposed)"

text \<open>The same session after a panic.\<close>

definition panicked :: DriftGuardState where
  "panicked = snd (panic ''2026-01-01T00:00:02.000Z'' ''stuck'' started)"

text \<open>A session whose log is full.\<close>

definition full_log :: DriftGuardState where
  "full_log = fresh\<lparr> logs := replicate 100
                 \<lparr> timestamp = ''2026-01-01T00:00:00.000Z'', action = ''dg_init'',
                   log_taskId = None, details = None \<rparr> \<rparr>"

text \<open>
  The first task claims a path, shared; a second task is proposed next (the focus state is
  still IDLE) and becomes the active one.
\<close>

definition claimedA :: DriftGuardState where
  "claimedA = snd (claimScope ''2026-01-01T00:00:01.000Z'' 1001 empty_fs literal_match
                     [''src/a.ts''] False proposed)"

definition proposedB :: DriftGuardState where
  "proposedB = snd (proposeTask ''2026-01-01T00:00:02.000Z'' ''4b4b4b4b-0000-4000-8000-000000000000''
                      ''Rogue'' ''G2'' [''src/a.ts''] [] None claimedA)"

text \<open>The session invariant of the data model: an active task id is a key of the task record.\<close>

definition activeTaskValid :: "DriftGuardState \<Rightarrow> bool" where
  "activeTaskValid s =
     (case activeTaskId (session s) of
        None \<Rightarrow> True
      | Some t \<Rightarrow> t \<noteq> [] \<and> map_of (tasks s) t \<noteq> None)"

text \<open>The first task, holding its claim, begins a step.\<close>

definition executingA :: DriftGuardState where
  "executingA = snd (beginStep ''2026-01-01T00:00:02.000Z'' ''0a1b2c3d-0000-4000-8000-000000000000''
                       None claimedA)"

text \<open>
  A path-to-hash record as \<^verbatim>\<open>calculateFileHashes\<close> builds it: one entry per path, each
  hash the hexadecimal text of a digest, never empty.
\<close>

definition hashRecord :: "(string \<times> string) list \<Rightarrow> bool" where
  "hashRecord al = (distinct (map fst al) \<and> (\<forall>e \<in> set al. snd e \<noteq> []))"

text \<open>The three tags of \<^verbatim>\<open>healthCheck\<close>, named.\<close>

definition NEW_tag :: string where
  "NEW_tag = '' (NEW)''"

definition MODIFIED_tag :: string where
  "MODIFIED_tag = '' (MODIFIED)''"

definition DELETED_tag :: string where
  "DELETED_tag = '' (DELETED)''"

text \<open>
  A project directory holding the one file \<^verbatim>\<open>src/a.ts\<close>, and the same directory after
  the file was edited.
\<close>

definition one_file_fs :: filesystem where
  "one_file_fs patterns = [(''src/a.ts'', ''0cc175b9c0f1b6a831c399e269772661'')]"

definition edited_fs :: filesystem where
  "edited_fs patterns = [(''src/a.ts'', ''92eb5ffee6ae2fec3ad71c777531578f'')]"

text \<open>The first task claims \<^verbatim>\<open>src/a.ts\<close> while the file is there, so its hash is cached.\<close>

definition snapshotA :: DriftGuardState where
  "snapshotA = snd (claimScope ''2026-01-01T00:00:01.000Z'' 1001 one_file_fs literal_match
                      [''src/a.ts''] False proposed)"

text \<open>
  A project directory whose root holds the one file \<^verbatim>\<open>toString\<close>; the first task
  claims the two root files \<^verbatim>\<open>toString\<close> and \<^verbatim>\<open>constructor\<close> there. Later
  \<^verbatim>\<open>toString\<close> is removed and \<^verbatim>\<open>constructor\<close> is created.
\<close>

definition root_before_fs :: filesystem where
  "root_before_fs patterns = [(''toString'', ''0cc175b9c0f1b6a831c399e269772661'')]"

definition root_after_fs :: filesystem where
  "root_after_fs patterns = [(''constructor'', ''92eb5ffee6ae2fec3ad71c777531578f'')]"

definition rootClaimed :: DriftGuardState where
  "rootClaimed = snd (claimScope ''2026-01-01T00:00:01.000Z'' 1001 root_before_fs literal_match
                        [''toString'', ''constructor''] False proposed)"

text \<open>Fifteen commits of the last 30 days, by fifteen authors.\<close>

definition busy_log :: "string list" where
  "busy_log = [''a@x.io'', ''b@x.io'', ''c@x.io'', ''d@x.io'', ''e@x.io'', ''f@x.io'', ''g@x.io'',
               ''h@x.io'', ''i@x.io'', ''j@x.io'', ''k@x.io'', ''l@x.io'', ''m@x.io'', ''n@x.io'',
               ''o@x.io'']"

section \<open>The session log\<close>

lemma log_length: "length (logs (log now act tid det s)) \<le> 100"
  by (simp add: log_def Let_def slice_last_def)

lemma log_keeps_last:
  "logs (log now act tid det s) =
     drop (length (logs s) + 1 - 100)
       (logs s @ [\<lparr> timestamp = now, action = act, log_taskId = tid, details = det \<rparr>])"
  by (simp add: log_def Let_def slice_last_def)

lemma log_session: "session (log now act tid det s) = session s"
  by (simp add: log_def Let_def)

lemma log_tasks: "tasks (log now act tid det s) = tasks s"
  by (simp add: log_def Let_def)

lemma proposeTask_logs:
  "length (logs s) \<le> 100 \<Longrightarrow> length (logs (snd (proposeTask now uuid ttl gl scopes items sa s))) \<le> 100"
  by (simp add: proposeTask_def Let_def log_length split: option.splits)

lemma beginStep_logs:
  "length (logs s) \<le> 100 \<Longrightarrow> length (logs (snd (beginStep now uuid sid s))) \<le> 100"
  by (simp add: beginStep_def Let_def log_length split: option.splits)

lemma checkpoint_logs:
  "length (logs s) \<le> 100 \<Longrightarrow> length (logs (snd (checkpoint now cf ir nw fs summ ids s))) \<le> 100"
  by (simp add: checkpoint_def Let_def log_length split: option.splits)

lemma panic_logs: "length (logs (snd (panic now r s))) \<le> 100"
  by (simp add: panic_def Let_def log_length)

lemma reportIntent_logs:
  "length (logs s) \<le> 100 \<Longrightarrow> length (logs (snd (reportIntent now uuid i fl s))) \<le> 100"
  by (simp add: reportIntent_def Let_def log_length split: option.splits)

lemma verify_logs:
  "length (logs s) \<le> 100 \<Longrightarrow> length (logs (snd (verify now run s))) \<le> 100"
  by (simp add: verify_def Let_def log_length split: option.splits)

lemma explainChange_logs:
  "length (logs s) \<le> 100 \<Longrightarrow> length (logs (snd (explainChange now d cf s))) \<le> 100"
  by (simp add: explainChange_def Let_def log_length split: option.splits)

lemma setTestCommand_logs:
  "length (logs s) \<le> 100 \<Longrightarrow> length (logs (snd (setTestCommand now c s))) \<le> 100"
  by (simp add: setTestCommand_def Let_def log_length split: option.splits)

lemma claimScope_logs:
  "length (logs s) \<le> 100 \<Longrightarrow> length (logs (snd (claimScope now nowMs fs mm ps ex s))) \<le> 100"
  by (simp add: claimScope_def Let_def log_length split: option.splits)

lemma delegateTask_logs:
  "length (logs s) \<le> 100 \<Longrightarrow> length (logs (snd (delegateTask now uuid mm t g sc s))) \<le> 100"
  by (simp add: delegateTask_def Let_def log_length split: option.splits)

lemma analyzeRisk_logs:
  "length (logs s) \<le> 100 \<Longrightarrow> length (logs (snd (analyzeRisk git p s))) \<le> 100"
  by (simp add: analyzeRisk_def Let_def split: option.splits)

lemma reset_logs: "length (logs (reset now uuid nowMs s)) \<le> 100"
  by (simp add: reset_def log_length)

lemma hydrate_logs:
  "length (logs s) \<le> 100 \<Longrightarrow> length (logs (snd (hydrate now disk s))) \<le> 100"
  by (simp add: hydrate_def log_length split: option.splits)

lemma initialize_logs: "length (logs (snd (initialize now uuid nowMs de disk p s))) \<le> 100"
  by (simp add: initialize_def Let_def log_length)

text \<open>
  C9. Appending to the log never leaves more than 100 entries, and what is kept is the
  tail of the old log followed by the new entry: the most recently appended entries.
  Every operation of the manager takes a log of at most 100 entries to a log of at most
  100 entries, whether it succeeds or fails. (\<^verbatim>\<open>healthCheck\<close> and the read-only
  accessors do not touch the state.)
\<close>

theorem log_bound_preserved:
  "length (logs (log now act tid det s0)) \<le> 100
   \<and> logs (log now act tid det s0) =
       drop (length (logs s0) + 1 - 100)
         (logs s0 @ [\<lparr> timestamp = now, action = act, log_taskId = tid, details = det \<rparr>])
   \<and> (length (logs s) \<le> 100 \<longrightarrow>
         length (logs (snd (proposeTask now uuid ttl gl scopes items sa s))) \<le> 100
       \<and> length (logs (snd (beginStep now uuid sid s))) \<le> 100
       \<and> length (logs (snd (reportIntent now uuid intent files s))) \<le> 100
       \<and> length (logs (snd (checkpoint now cf ir nw fs summ ids s))) \<le> 100
       \<and> length (logs (snd (verify now run s))) \<le> 100
       \<and> length (logs (snd (explainChange now diffStat cf s))) \<le> 100
       \<and> length (logs (snd (setTestCommand now cmd s))) \<le> 100
       \<and> length (logs (snd (panic now rsn s))) \<le> 100
       \<and> length (logs (snd (claimScope now nowMs fs mm ps ex s))) \<le> 100
       \<and> length (logs (snd (delegateTask now uuid mm subTitle subGoal subScope s))) \<le> 100
       \<and> length (logs (snd (analyzeRisk git target s))) \<le> 100
       \<and> length (logs (reset now uuid nowMs s)) \<le> 100
       \<and> length (logs (snd (hydrate now disk s))) \<le> 100
       \<and> length (logs (snd (initialize now uuid nowMs dirExists disk dgPath s))) \<le> 100)"
  by (intro conjI impI)
     (simp_all add: log_length log_keeps_last proposeTask_logs beginStep_logs reportIntent_logs
        checkpoint_logs verify_logs explainChange_logs setTestCommand_logs panic_logs
        claimScope_logs delegateTask_logs analyzeRisk_logs reset_logs hydrate_logs initialize_logs)

theorem log_bound_preserved_witness:
  "length (logs full_log) \<le> 100
   \<and> length (logs (snd (panic ''2026-01-01T00:00:02.000Z'' ''stuck'' full_log))) \<le> 100
   \<and> length (logs (snd (checkpoint ''2026-01-01T00:00:02.000Z'' [] False False empty_fs ''x'' [] full_log))) \<le> 100"
proof -
  have h: "length (logs full_log) \<le> 100"
    by (simp add: full_log_def)
  note r = log_bound_preserved [THEN conjunct2, THEN conjunct2, THEN mp, OF h]
  show ?thesis
  proof (intro conjI)
    show "length (logs full_log) \<le> 100" by (rule h)
    show "length (logs (snd (panic ''2026-01-01T00:00:02.000Z'' ''stuck'' full_log))) \<le> 100"
      by (rule r [THEN conjunct2, THEN conjunct2, THEN conjunct2, THEN conjunct2,
                  THEN conjunct2, THEN conjunct2, THEN conjunct2, THEN conjunct1])
    show "length (logs (snd (checkpoint ''2026-01-01T00:00:02.000Z'' [] False False empty_fs ''x'' [] full_log))) \<le> 100"
      by (rule r [THEN conjunct2, THEN conjunct2, THEN conjunct2, THEN conjunct1])
  qed
qed

section \<open>The concrete sessions, evaluated\<close>

lemma proposed_eval:
  "proposed =
     \<lparr> version = ''3.0.0'',
       session = \<lparr> sessionId = ''5e5e5e5e-0000-4000-8000-000000000000'', startTime = 0,
                   currentState = IDLE, activeTaskId = Some ''task_9f8e7d6c'',
                   activeStepId = None, isVerified = False, intentFiled = False,
                   activeClaims = Some [], lastKnownFileHashes = Some [] \<rparr>,
       tasks = [(''task_9f8e7d6c'',
                 \<lparr> taskId = ''task_9f8e7d6c'', title = ''T'', goal = ''G'',
                   allowedScopes = [''src/a.ts''],
                   checklist = [\<lparr> item_id = ''1'', item_text = ''x'', item_status = Todo \<rparr>],
                   strictness = L2_LOGGED, testCommand = None, lastIntent = None,
                   filesToTouch = None, parentTaskId = None, subTaskIds = Some [],
                   claims = Some [], riskScore = None,
                   createdAt = ''2026-01-01T00:00:00.000Z'',
                   updatedAt = ''2026-01-01T00:00:00.000Z'' \<rparr>)],
       logs = [\<lparr> timestamp = ''2026-01-01T00:00:00.000Z'', action = ''dg_propose_task'',
                 log_taskId = Some ''task_9f8e7d6c'', details = Some ''Task proposed: T'' \<rparr>] \<rparr>"
  by (simp add: proposed_def fresh_def proposeTask_def validateTransition_def
        createInitialState_def STATE_VERSION_def log_def Let_def)

lemma claimedA_eval:
  "claimedA =
     \<lparr> version = ''3.0.0'',
       session = \<lparr> sessionId = ''5e5e5e5e-0000-4000-8000-000000000000'', startTime = 0,
                   currentState = IDLE, activeTaskId = Some ''task_9f8e7d6c'',
                   activeStepId = None, isVerified = False, intentFiled = False,
                   activeClaims = Some [\<lparr> path = ''src/a.ts'', exclusive = False,
                                          ownerTaskId = ''task_9f8e7d6c'', claim_createdAt = 1001 \<rparr>],
                   lastKnownFileHashes = Some [] \<rparr>,
       tasks = [(''task_9f8e7d6c'',
                 \<lparr> taskId = ''task_9f8e7d6c'', title = ''T'', goal = ''G'',
                   allowedScopes = [''src/a.ts''],
                   checklist = [\<lparr> item_id = ''1'', item_text = ''x'', item_status = Todo \<rparr>],
                   strictness = L2_LOGGED, testCommand = None, lastIntent = None,
                   filesToTouch = None, parentTaskId = None, subTaskIds = Some [],
                   claims = Some [\<lparr> path = ''src/a.ts'', exclusive = False,
                                    ownerTaskId = ''task_9f8e7d6c'', claim_createdAt = 1001 \<rparr>],
                   riskScore = None,
                   createdAt = ''2026-01-01T00:00:00.000Z'',
                   updatedAt = ''2026-01-01T00:00:00.000Z'' \<rparr>)],
       logs = [\<lparr> timestamp = ''2026-01-01T00:00:00.000Z'', action = ''dg_propose_task'',
                 log_taskId = Some ''task_9f8e7d6c'', details = Some ''Task proposed: T'' \<rparr>,
               \<lparr> timestamp = ''2026-01-01T00:00:01.000Z'', action = ''dg_claim_scope'',
                 log_taskId = Some ''task_9f8e7d6c'',
                 details = Some ''Granted active claims: src/a.ts'' \<rparr>] \<rparr>"
  by (simp add: claimedA_def proposed_eval claimScope_def Let_def refreshActiveClaims_def
        claims_or_empty_def active_or_empty_def known_or_empty_def calculateFileHashes_def
        empty_fs_def spread_def log_def)

lemma proposedB_eval:
  "proposedB =
     \<lparr> version = ''3.0.0'',
       session = \<lparr> sessionId = ''5e5e5e5e-0000-4000-8000-000000000000'', startTime = 0,
                   currentState = IDLE, activeTaskId = Some ''task_4b4b4b4b'',
                   activeStepId = None, isVerified = False, intentFiled = False,
                   activeClaims = Some [\<lparr> path = ''src/a.ts'', exclusive = False,
                                          ownerTaskId = ''task_9f8e7d6c'', claim_createdAt = 1001 \<rparr>],
                   lastKnownFileHashes = Some [] \<rparr>,
       tasks = [(''task_9f8e7d6c'',
                 \<lparr> taskId = ''task_9f8e7d6c'', title = ''T'', goal = ''G'',
                   allowedScopes = [''src/a.ts''],
                   checklist = [\<lparr> item_id = ''1'', item_text = ''x'', item_status = Todo \<rparr>],
                   strictness = L2_LOGGED, testCommand = None, lastIntent = None,
                   filesToTouch = None, parentTaskId = None, subTaskIds = Some [],
                   claims = Some [\<lparr> path = ''src/a.ts'', exclusive = False,
                                    ownerTaskId = ''task_9f8e7d6c'', claim_createdAt = 1001 \<rparr>],
                   riskScore = None,
                   createdAt = ''2026-01-01T00:00:00.000Z'',
                   updatedAt = ''2026-01-01T00:00:00.000Z'' \<rparr>),
                (''task_4b4b4b4b'',
                 \<lparr> taskId = ''task_4b4b4b4b'', title = ''Rogue'', goal = ''G2'',
                   allowedScopes = [''src/a.ts''], checklist = [],
                   strictness = L2_LOGGED, testCommand = None, lastIntent = None,
                   filesToTouch = None, parentTaskId = None, subTaskIds = Some [],
                   claims = Some [], riskScore = None,
                   createdAt = ''2026-01-01T00:00:02.000Z'',
                   updatedAt = ''2026-01-01T00:00:02.000Z'' \<rparr>)],
       logs = [\<lparr> timestamp = ''2026-01-01T00:00:00.000Z'', action = ''dg_propose_task'',
                 log_taskId = Some ''task_9f8e7d6c'', details = Some ''Task proposed: T'' \<rparr>,
               \<lparr> timestamp = ''2026-01-01T00:00:01.000Z'', action = ''dg_claim_scope'',
                 log_taskId = Some ''task_9f8e7d6c'',
                 details = Some ''Granted active claims: src/a.ts'' \<rparr>,
               \<lparr> timestamp = ''2026-01-01T00:00:02.000Z'', action = ''dg_propose_task'',
                 log_taskId = Some ''task_4b4b4b4b'', details = Some ''Task proposed: Rogue'' \<rparr>] \<rparr>"
  by (simp add: proposedB_def claimedA_eval proposeTask_def validateTransition_def log_def Let_def)

section \<open>Conflict detection\<close>

lemma checkConflict_find:
  "checkConflict mm rp rid cls ts =
     List.find (\<lambda>c. ownerTaskId c \<noteq> rid \<and> \<not> ownedByParent ts rid c \<and> checkOverlap mm rp (path c)) cls"
  by (induction cls) simp_all

text \<open>
  C1, as the code has it. Among the active claims owned neither by the requestor nor by
  the requestor's parent, \<^verbatim>\<open>checkConflict\<close> returns the first one whose pattern
  overlaps the requested path under the bidirectional test, whatever its exclusivity
  flag: there is a conflict exactly when some such claim overlaps. The request's own
  flag is no argument of the function.
\<close>

theorem checkConflict_any_overlap:
  "checkConflict mm rp rid cls ts =
     List.find (\<lambda>c. ownerTaskId c \<noteq> rid \<and> \<not> ownedByParent ts rid c \<and> checkOverlap mm rp (path c)) cls
   \<and> ((checkConflict mm rp rid cls ts \<noteq> None) =
        (\<exists>c \<in> set cls. ownerTaskId c \<noteq> rid \<and> \<not> ownedByParent ts rid c
                        \<and> (rp = path c \<or> mm rp (path c) \<or> mm (path c) rp)))"
proof -
  have ov: "\<And>a b. checkOverlap mm a b = (a = b \<or> mm a b \<or> mm b a)"
    by (simp add: checkOverlap_def)
  show ?thesis
    unfolding checkConflict_find by (auto simp: find_None_iff ov)
qed

theorem checkConflict_any_overlap_witness:
  "(\<exists>c \<in> set [\<lparr> path = ''src/b.ts'', exclusive = True, ownerTaskId = ''task_a'', claim_createdAt = 0 \<rparr>,
                  \<lparr> path = ''src/a.ts'', exclusive = True, ownerTaskId = ''task_a'', claim_createdAt = 1 \<rparr>].
      ownerTaskId c \<noteq> ''task_b'' \<and> \<not> ownedByParent [] ''task_b'' c \<and> ''src/a.ts'' = path c)
   \<and> checkConflict literal_match ''src/a.ts'' ''task_b''
     [\<lparr> path = ''src/b.ts'', exclusive = True, ownerTaskId = ''task_a'', claim_createdAt = 0 \<rparr>,
      \<lparr> path = ''src/a.ts'', exclusive = True, ownerTaskId = ''task_a'', claim_createdAt = 1 \<rparr>] []
     = Some \<lparr> path = ''src/a.ts'', exclusive = True, ownerTaskId = ''task_a'', claim_createdAt = 1 \<rparr>"
  using checkConflict_any_overlap [of literal_match "''src/a.ts''" "''task_b''"
     "[\<lparr> path = ''src/b.ts'', exclusive = True, ownerTaskId = ''task_a'', claim_createdAt = 0 \<rparr>,
       \<lparr> path = ''src/a.ts'', exclusive = True, ownerTaskId = ''task_a'', claim_createdAt = 1 \<rparr>]" "[]"]
  by (simp add: literal_match_def ownedByParent_def checkOverlap_def)

text \<open>
  The first task holds \<^verbatim>\<open>src/a.ts\<close> with a non-exclusive claim; the second task, not
  its child, asks for the same path, and the non-exclusive claim is returned as the
  conflict.
\<close>

theorem checkConflict_nonexclusive_counterexample:
  "active_or_empty (session proposedB)
     = [\<lparr> path = ''src/a.ts'', exclusive = False, ownerTaskId = ''task_9f8e7d6c'', claim_createdAt = 1001 \<rparr>]
   \<and> checkConflict literal_match ''src/a.ts'' ''task_4b4b4b4b''
         (active_or_empty (session proposedB)) (tasks proposedB)
       = Some \<lparr> path = ''src/a.ts'', exclusive = False, ownerTaskId = ''task_9f8e7d6c'',
                claim_createdAt = 1001 \<rparr>"
  by (simp add: proposedB_eval active_or_empty_def checkOverlap_def ownedByParent_def)

section \<open>The state machine\<close>

lemma proposed_session:
  "currentState (session proposed) = IDLE \<and> \<not> intentFiled (session proposed)
   \<and> activeTaskId (session proposed) = Some ''task_9f8e7d6c''"
  by (simp add: proposed_def fresh_def proposeTask_def validateTransition_def
        createInitialState_def log_def Let_def)

lemma started_session:
  "currentState (session started) = EXECUTING \<and> \<not> intentFiled (session started)
   \<and> activeTaskId (session started) = Some ''task_9f8e7d6c''"
  using proposed_session
  by (simp add: started_def beginStep_def validateTransition_def log_def Let_def)

lemma panicked_session: "currentState (session panicked) = PANIC"
  by (simp add: panicked_def panic_def log_def Let_def)

text \<open>
  C3, as the code has it. With \<^verbatim>\<open>intentFiled\<close> false, \<^verbatim>\<open>checkpoint\<close> fails and
  leaves the state as it was: with \<^verbatim>\<open>IntentMissingError\<close> when the focus state is
  EXECUTING, and with the \<^verbatim>\<open>StateTransitionError\<close> of the state validation, which
  runs first, in every other focus state.
\<close>

theorem checkpoint_without_intent:
  "\<not> intentFiled (session s) \<Longrightarrow>
     checkpoint now cf ir nw fs summ ids s =
       (if currentState (session s) = EXECUTING then (Inl IntentMissingError, s)
        else (Inl (StateTransitionError ''dg_checkpoint'' (currentState (session s)) [EXECUTING]), s))"
  by (simp add: checkpoint_def validateTransition_def)

theorem checkpoint_without_intent_witness:
  "\<not> intentFiled (session started) \<and>
   fst (checkpoint ''2026-01-01T00:00:02.000Z'' [] False False empty_fs ''x'' [] started)
     = Inl IntentMissingError"
  using checkpoint_without_intent [of started "''2026-01-01T00:00:02.000Z''" "[]" False False empty_fs "''x''" "[]"]
    started_session
  by simp

text \<open>
  Right after a task was proposed, with no intent filed, \<^verbatim>\<open>checkpoint\<close> fails with a
  \<^verbatim>\<open>StateTransitionError\<close>, not with \<^verbatim>\<open>IntentMissingError\<close>.
\<close>

theorem checkpoint_not_executing_counterexample:
  "\<not> intentFiled (session proposed) \<and>
   fst (checkpoint ''2026-01-01T00:00:02.000Z'' [] False False empty_fs ''x'' [] proposed)
     = Inl (StateTransitionError ''dg_checkpoint'' IDLE [EXECUTING])"
  using proposed_session
  by (simp add: checkpoint_def validateTransition_def)

text \<open>
  C4, the failing input. \<^verbatim>\<open>proposeTask\<close> never assigns the focus state: the state it
  leaves has the focus state it found, so a task proposed in IDLE leaves the session in
  IDLE, not in PLANNING.
\<close>

theorem proposeTask_keeps_focus_state:
  "currentState (session (snd (proposeTask now uuid ttl gl scopes items sa s))) = currentState (session s)
   \<and> currentState (session fresh) = IDLE
   \<and> currentState (session proposed) = IDLE"
  using proposed_session
  by (simp add: proposeTask_def validateTransition_def log_def Let_def fresh_def createInitialState_def)

text \<open>
  C8. \<^verbatim>\<open>panic\<close> returns its help packet from every state and leaves the session in
  PANIC. In PANIC each of \<^verbatim>\<open>proposeTask\<close>, \<^verbatim>\<open>beginStep\<close>, \<^verbatim>\<open>reportIntent\<close>,
  \<^verbatim>\<open>checkpoint\<close>, \<^verbatim>\<open>verify\<close>, \<^verbatim>\<open>explainChange\<close> and \<^verbatim>\<open>delegateTask\<close> fails its
  state validation and leaves the whole state, the focus state included, unchanged.
  \<^verbatim>\<open>claimScope\<close>, \<^verbatim>\<open>setTestCommand\<close> and \<^verbatim>\<open>analyzeRisk\<close>, which have no state
  validation, leave the focus state in PANIC, and so do \<^verbatim>\<open>hydrate\<close> and
  \<^verbatim>\<open>initialize\<close> when they read back the snapshot the session itself wrote.
\<close>

theorem panic_sticky:
  "(\<exists>hp. fst (panic now rsn s) = Inr hp)
   \<and> currentState (session (snd (panic now rsn s))) = PANIC
   \<and> (currentState (session s) = PANIC \<longrightarrow>
        proposeTask now uuid ttl gl scopes items sa s
          = (Inl (StateTransitionError ''dg_propose_task'' PANIC [IDLE]), s)
      \<and> beginStep now uuid sid s
          = (Inl (StateTransitionError ''dg_begin_step'' PANIC [PLANNING, IDLE]), s)
      \<and> reportIntent now uuid intent files s
          = (Inl (StateTransitionError ''dg_report_intent'' PANIC [PLANNING, IDLE]), s)
      \<and> checkpoint now cf ir nw fs summ ids s
          = (Inl (StateTransitionError ''dg_checkpoint'' PANIC [EXECUTING]), s)
      \<and> verify now run s
          = (Inl (StateTransitionError ''dg_verify'' PANIC [EXECUTING]), s)
      \<and> explainChange now diffStat cf s
          = (Inl (StateTransitionError ''dg_explain_change'' PANIC [EXECUTING]), s)
      \<and> delegateTask now uuid mm subTitle subGoal subScope s
          = (Inl (StateTransitionError ''dg_delegate'' PANIC [EXECUTING]), s)
      \<and> currentState (session (snd (claimScope now nowMs fs mm ps ex s))) = PANIC
      \<and> currentState (session (snd (setTestCommand now cmd s))) = PANIC
      \<and> currentState (session (snd (analyzeRisk git target s))) = PANIC
      \<and> currentState (session (snd (hydrate now (Some s) s))) = PANIC
      \<and> currentState (session (snd (initialize now uuid nowMs True (Some s) dgPath s))) = PANIC)"
proof (intro conjI impI)
  show "\<exists>hp. fst (panic now rsn s) = Inr hp"
    by (simp add: panic_def Let_def)
  show "currentState (session (snd (panic now rsn s))) = PANIC"
    by (simp add: panic_def Let_def log_session)
next
  assume p: "currentState (session s) = PANIC"
  then have v: "\<And>act allowed. PANIC \<notin> set allowed \<Longrightarrow>
                  validateTransition act allowed s = Some (StateTransitionError act PANIC allowed)"
    by (simp add: validateTransition_def)
  show "proposeTask now uuid ttl gl scopes items sa s
          = (Inl (StateTransitionError ''dg_propose_task'' PANIC [IDLE]), s)"
    by (simp add: proposeTask_def v)
  show "beginStep now uuid sid s
          = (Inl (StateTransitionError ''dg_begin_step'' PANIC [PLANNING, IDLE]), s)"
    by (simp add: beginStep_def v)
  show "reportIntent now uuid intent files s
          = (Inl (StateTransitionError ''dg_report_intent'' PANIC [PLANNING, IDLE]), s)"
    by (simp add: reportIntent_def v)
  show "checkpoint now cf ir nw fs summ ids s
          = (Inl (StateTransitionError ''dg_checkpoint'' PANIC [EXECUTING]), s)"
    by (simp add: checkpoint_def v)
  show "verify now run s
          = (Inl (StateTransitionError ''dg_verify'' PANIC [EXECUTING]), s)"
    by (simp add: verify_def v)
  show "explainChange now diffStat cf s
          = (Inl (StateTransitionError ''dg_explain_change'' PANIC [EXECUTING]), s)"
    by (simp add: explainChange_def v)
  show "delegateTask now uuid mm subTitle subGoal subScope s
          = (Inl (StateTransitionError ''dg_delegate'' PANIC [EXECUTING]), s)"
    by (simp add: delegateTask_def v)
  show "currentState (session (snd (claimScope now nowMs fs mm ps ex s))) = PANIC"
    using p by (simp add: claimScope_def Let_def log_session refreshActiveClaims_def split: option.splits)
  show "currentState (session (snd (setTestCommand now cmd s))) = PANIC"
    using p by (simp add: setTestCommand_def Let_def log_session split: option.splits)
  show "currentState (session (snd (analyzeRisk git target s))) = PANIC"
    using p by (simp add: analyzeRisk_def Let_def split: option.splits)
  show "currentState (session (snd (hydrate now (Some s) s))) = PANIC"
    using p by (simp add: hydrate_def log_session)
  show "currentState (session (snd (initialize now uuid nowMs True (Some s) dgPath s))) = PANIC"
    using p by (simp add: initialize_def hydrate_def Let_def log_session)
qed

theorem panic_sticky_witness:
  "currentState (session panicked) = PANIC
   \<and> proposeTask ''2026-01-01T00:00:03.000Z'' ''77777777-0000'' ''T2'' ''G2'' [] [] None panicked
       = (Inl (StateTransitionError ''dg_propose_task'' PANIC [IDLE]), panicked)
   \<and> checkpoint ''2026-01-01T00:00:03.000Z'' [] False False empty_fs ''x'' [] panicked
       = (Inl (StateTransitionError ''dg_checkpoint'' PANIC [EXECUTING]), panicked)"
proof -
  note r = panic_sticky [THEN conjunct2, THEN conjunct2, THEN mp, OF panicked_session]
  show ?thesis
  proof (intro conjI)
    show "currentState (session panicked) = PANIC" by (rule panicked_session)
    show "proposeTask ''2026-01-01T00:00:03.000Z'' ''77777777-0000'' ''T2'' ''G2'' [] [] None panicked
            = (Inl (StateTransitionError ''dg_propose_task'' PANIC [IDLE]), panicked)"
      by (rule r [THEN conjunct1])
    show "checkpoint ''2026-01-01T00:00:03.000Z'' [] False False empty_fs ''x'' [] panicked
            = (Inl (StateTransitionError ''dg_checkpoint'' PANIC [EXECUTING]), panicked)"
      by (rule r [THEN conjunct2, THEN conjunct2, THEN conjunct2, THEN conjunct1])
  qed
qed

section \<open>Claiming scope\<close>

lemma scanPaths_fst: "fst (scanPaths chk mk ps) = List.map_filter chk ps"
  by (induction ps) (simp_all split: option.splits)

lemma scanPaths_snd: "snd (scanPaths chk mk ps) = map mk (filter (\<lambda>p. chk p = None) ps)"
  by (induction ps) (simp_all split: option.splits)

lemma map_filter_empty_iff: "(List.map_filter chk ps = []) = (\<forall>p \<in> set ps. chk p = None)"
  by (induction ps) (simp_all split: option.splits)

lemma ownedByParent_update:
  "map_of ts tid = Some task \<Longrightarrow> parentTaskId task' = parentTaskId task \<Longrightarrow>
     ownedByParent (AList.update tid task' ts) rid c = ownedByParent ts rid c"
  by (simp add: ownedByParent_def update_conv')

lemma checkConflict_update:
  "map_of ts tid = Some task \<Longrightarrow> parentTaskId task' = parentTaskId task \<Longrightarrow>
     checkConflict mm p rid cls (AList.update tid task' ts) = checkConflict mm p rid cls ts"
  by (simp add: checkConflict_find ownedByParent_update)

lemma update_same_view:
  "map_of al k = Some v0 \<Longrightarrow> f v = f v0 \<Longrightarrow> map (f \<circ> snd) (AList.update k v al) = map (f \<circ> snd) al"
  by (induction al) (auto split: if_splits)

lemma update_keys: "map_of al k = Some v0 \<Longrightarrow> map fst (AList.update k v al) = map fst al"
  by (induction al) (auto split: if_splits)

text \<open>
  C2. With an active task that is registered: if some requested path conflicts with the
  active-claim cache, the answer is \<^verbatim>\<open>granted = false\<close> with the conflicts of the
  requested paths in request order, the session (and with it the active-claim cache and
  the last-known-hash cache) is unchanged, and every task has the claim list it had. If
  no requested path conflicts, the answer is \<^verbatim>\<open>granted = true\<close>, the active task's
  claims are its old ones followed by one new claim per requested path, owned by the
  active task, no other task changes, and the active-claim cache is the concatenation of
  all tasks' claim lists.
\<close>

theorem claimScope_atomic:
  assumes "activeTaskId (session s) = Some tid" and "tid \<noteq> []" and "map_of (tasks s) tid = Some task"
  shows
    "((\<exists>p \<in> set ps. checkConflict mm p tid (active_or_empty (session s)) (tasks s) \<noteq> None) \<longrightarrow>
        fst (claimScope now nowMs fs mm ps ex s)
          = Inr \<lparr> granted = False,
                  conflicts = List.map_filter
                    (\<lambda>p. checkConflict mm p tid (active_or_empty (session s)) (tasks s)) ps \<rparr>
      \<and> session (snd (claimScope now nowMs fs mm ps ex s)) = session s
      \<and> map (claims_or_empty \<circ> snd) (tasks (snd (claimScope now nowMs fs mm ps ex s)))
          = map (claims_or_empty \<circ> snd) (tasks s)
      \<and> map fst (tasks (snd (claimScope now nowMs fs mm ps ex s))) = map fst (tasks s))
   \<and> ((\<forall>p \<in> set ps. checkConflict mm p tid (active_or_empty (session s)) (tasks s) = None) \<longrightarrow>
        fst (claimScope now nowMs fs mm ps ex s) = Inr \<lparr> granted = True, conflicts = [] \<rparr>
      \<and> map_option claims_or_empty (map_of (tasks (snd (claimScope now nowMs fs mm ps ex s))) tid)
          = Some (claims_or_empty task
                  @ map (\<lambda>p. \<lparr> path = p, exclusive = ex, ownerTaskId = tid, claim_createdAt = nowMs \<rparr>) ps)
      \<and> activeClaims (session (snd (claimScope now nowMs fs mm ps ex s)))
          = Some (concat (map (claims_or_empty \<circ> snd) (tasks (snd (claimScope now nowMs fs mm ps ex s)))))
      \<and> (\<forall>k. k \<noteq> tid \<longrightarrow>
            map_of (tasks (snd (claimScope now nowMs fs mm ps ex s))) k = map_of (tasks s) k))"
proof -
  define task0 where "task0 = (case claims task of None \<Rightarrow> task\<lparr> claims := Some [] \<rparr> | Some cs \<Rightarrow> task)"
  define chk where "chk = (\<lambda>p. checkConflict mm p tid (active_or_empty (session s)) (tasks s))"
  have p0: "parentTaskId task0 = parentTaskId task"
    by (simp add: task0_def split: option.splits)
  have c0: "claims_or_empty task0 = claims_or_empty task"
    by (simp add: task0_def claims_or_empty_def split: option.splits)
  have chk0: "\<And>p cls. checkConflict mm p tid cls (AList.update tid task0 (tasks s)) = checkConflict mm p tid cls (tasks s)"
    using assms(3) p0 by (simp add: checkConflict_update)
  show ?thesis
  proof (intro conjI impI)
    assume "\<exists>p \<in> set ps. checkConflict mm p tid (active_or_empty (session s)) (tasks s) \<noteq> None"
    then have ne: "List.map_filter chk ps \<noteq> []"
      by (simp add: map_filter_empty_iff chk_def)
    show "fst (claimScope now nowMs fs mm ps ex s)
          = Inr \<lparr> granted = False,
                  conflicts = List.map_filter
                    (\<lambda>p. checkConflict mm p tid (active_or_empty (session s)) (tasks s)) ps \<rparr>"
      using assms ne
      by (simp add: claimScope_def Let_def scanPaths_fst task0_def[symmetric] chk0 chk_def)
    show "session (snd (claimScope now nowMs fs mm ps ex s)) = session s"
      using assms ne
      by (simp add: claimScope_def Let_def scanPaths_fst task0_def[symmetric] chk0 chk_def)
    show "map (claims_or_empty \<circ> snd) (tasks (snd (claimScope now nowMs fs mm ps ex s)))
          = map (claims_or_empty \<circ> snd) (tasks s)"
      using assms ne c0
      by (simp add: claimScope_def Let_def scanPaths_fst task0_def[symmetric] chk0 chk_def
            update_same_view [where ?v0.0 = task])
    show "map fst (tasks (snd (claimScope now nowMs fs mm ps ex s))) = map fst (tasks s)"
      using assms ne
      by (simp add: claimScope_def Let_def scanPaths_fst task0_def[symmetric] chk0 chk_def
            update_keys [where ?v0.0 = task])
  next
    assume a: "\<forall>p \<in> set ps. checkConflict mm p tid (active_or_empty (session s)) (tasks s) = None"
    then have e: "List.map_filter chk ps = []"
      by (simp add: map_filter_empty_iff chk_def)
    from a have f: "filter (\<lambda>p. chk p = None) ps = ps"
      by (simp add: chk_def)
    show "fst (claimScope now nowMs fs mm ps ex s) = Inr \<lparr> granted = True, conflicts = [] \<rparr>"
      using assms e
      by (simp add: claimScope_def Let_def scanPaths_fst task0_def[symmetric] chk0 chk_def)
    show "map_option claims_or_empty (map_of (tasks (snd (claimScope now nowMs fs mm ps ex s))) tid)
          = Some (claims_or_empty task
                  @ map (\<lambda>p. \<lparr> path = p, exclusive = ex, ownerTaskId = tid, claim_createdAt = nowMs \<rparr>) ps)"
      using assms e f c0
      by (simp add: claimScope_def Let_def scanPaths_fst scanPaths_snd task0_def[symmetric] chk0 chk_def
            refreshActiveClaims_def log_def update_conv' claims_or_empty_def)
    show "activeClaims (session (snd (claimScope now nowMs fs mm ps ex s)))
          = Some (concat (map (claims_or_empty \<circ> snd) (tasks (snd (claimScope now nowMs fs mm ps ex s)))))"
      using assms e
      by (simp add: claimScope_def Let_def scanPaths_fst task0_def[symmetric] chk0 chk_def
            refreshActiveClaims_def log_def)
    show "\<forall>k. k \<noteq> tid \<longrightarrow>
            map_of (tasks (snd (claimScope now nowMs fs mm ps ex s))) k = map_of (tasks s) k"
      using assms e
      by (simp add: claimScope_def Let_def scanPaths_fst task0_def[symmetric] chk0 chk_def
            refreshActiveClaims_def log_def update_conv')
  qed
qed

text \<open>
  The second task asks for the path the first one holds and is refused, with nothing
  changed; the first task's own request had been granted.
\<close>

theorem claimScope_atomic_witness:
  "activeTaskId (session proposedB) = Some ''task_4b4b4b4b''
   \<and> fst (claimScope ''2026-01-01T00:00:03.000Z'' 1003 empty_fs literal_match [''src/a.ts''] True proposedB)
       = Inr \<lparr> granted = False,
               conflicts = [\<lparr> path = ''src/a.ts'', exclusive = False,
                              ownerTaskId = ''task_9f8e7d6c'', claim_createdAt = 1001 \<rparr>] \<rparr>
   \<and> session (snd (claimScope ''2026-01-01T00:00:03.000Z'' 1003 empty_fs literal_match [''src/a.ts''] True proposedB))
       = session proposedB
   \<and> fst (claimScope ''2026-01-01T00:00:01.000Z'' 1001 empty_fs literal_match [''src/a.ts''] False proposed)
       = Inr \<lparr> granted = True, conflicts = [] \<rparr>"
proof -
  have b1: "activeTaskId (session proposedB) = Some ''task_4b4b4b4b''"
    by (simp add: proposedB_eval)
  have b2: "map_of (tasks proposedB) ''task_4b4b4b4b'' = Some (snd (tasks proposedB ! 1))"
    by (simp add: proposedB_eval)
  have b3: "\<exists>p \<in> set [''src/a.ts''].
              checkConflict literal_match p ''task_4b4b4b4b'' (active_or_empty (session proposedB))
                (tasks proposedB) \<noteq> None"
    by (simp add: proposedB_eval active_or_empty_def ownedByParent_def checkOverlap_def)
  have b4: "List.map_filter
              (\<lambda>p. checkConflict literal_match p ''task_4b4b4b4b'' (active_or_empty (session proposedB))
                      (tasks proposedB)) [''src/a.ts'']
            = [\<lparr> path = ''src/a.ts'', exclusive = False,
                  ownerTaskId = ''task_9f8e7d6c'', claim_createdAt = 1001 \<rparr>]"
    by (simp add: proposedB_eval active_or_empty_def ownedByParent_def checkOverlap_def)
  have a1: "activeTaskId (session proposed) = Some ''task_9f8e7d6c''"
    by (simp add: proposed_eval)
  have a2: "map_of (tasks proposed) ''task_9f8e7d6c'' = Some (snd (tasks proposed ! 0))"
    by (simp add: proposed_eval)
  have a3: "\<forall>p \<in> set [''src/a.ts''].
              checkConflict literal_match p ''task_9f8e7d6c'' (active_or_empty (session proposed))
                (tasks proposed) = None"
    by (simp add: proposed_eval active_or_empty_def)
  note refused = claimScope_atomic [OF b1 _ b2, THEN conjunct1, THEN mp, OF _ b3]
  note granted = claimScope_atomic [OF a1 _ a2, THEN conjunct2, THEN mp, OF _ a3]
  show ?thesis
    using b1 b4 refused [of "''2026-01-01T00:00:03.000Z''" 1003 empty_fs True]
      granted [of "''2026-01-01T00:00:01.000Z''" 1001 empty_fs False]
    by simp
qed

text \<open>
  C10. \<^verbatim>\<open>claimScope\<close> does not read the focus state: run from the same session with
  any other focus state it gives the same answer and the same state, up to that focus
  state. It never fails with a \<^verbatim>\<open>StateTransitionError\<close>, and in a session whose active
  task id, if set, keys a task, it fails exactly when there is no active task.
\<close>

theorem claimScope_focus_independent:
  "claimScope now nowMs fs mm ps ex (s\<lparr> session := (session s)\<lparr> currentState := st \<rparr> \<rparr>)
     = (fst (claimScope now nowMs fs mm ps ex s),
        (snd (claimScope now nowMs fs mm ps ex s))
          \<lparr> session := (session (snd (claimScope now nowMs fs mm ps ex s)))\<lparr> currentState := st \<rparr> \<rparr>)
   \<and> fst (claimScope now nowMs fs mm ps ex s) \<noteq> Inl (StateTransitionError a b c)
   \<and> (activeTaskValid s \<longrightarrow>
        (\<exists>e. fst (claimScope now nowMs fs mm ps ex s) = Inl e) = (activeTaskId (session s) = None))"
proof (intro conjI impI)
  show "claimScope now nowMs fs mm ps ex (s\<lparr> session := (session s)\<lparr> currentState := st \<rparr> \<rparr>)
     = (fst (claimScope now nowMs fs mm ps ex s),
        (snd (claimScope now nowMs fs mm ps ex s))
          \<lparr> session := (session (snd (claimScope now nowMs fs mm ps ex s)))\<lparr> currentState := st \<rparr> \<rparr>)"
    by (simp add: claimScope_def Let_def refreshActiveClaims_def log_def known_or_empty_def
          active_or_empty_def split: option.splits)
  show "fst (claimScope now nowMs fs mm ps ex s) \<noteq> Inl (StateTransitionError a b c)"
    by (simp add: claimScope_def Let_def split: option.splits)
  assume "activeTaskValid s"
  then show "(\<exists>e. fst (claimScope now nowMs fs mm ps ex s) = Inl e) = (activeTaskId (session s) = None)"
    by (auto simp: claimScope_def Let_def activeTaskValid_def split: option.splits)
qed

theorem claimScope_focus_independent_witness:
  "activeTaskValid panicked
   \<and> activeTaskId (session panicked) \<noteq> None
   \<and> (\<forall>e. fst (claimScope ''2026-01-01T00:00:03.000Z'' 1003 empty_fs literal_match [''src/a.ts''] True panicked)
            \<noteq> Inl e)
   \<and> activeTaskValid fresh
   \<and> (\<exists>e. fst (claimScope ''2026-01-01T00:00:03.000Z'' 1003 empty_fs literal_match [''src/a.ts''] True fresh)
            = Inl e)"
proof -
  have p: "activeTaskValid panicked \<and> activeTaskId (session panicked) \<noteq> None"
    by (simp add: activeTaskValid_def panicked_def started_def panic_def beginStep_def
          validateTransition_def log_def Let_def proposed_eval)
  have f: "activeTaskValid fresh \<and> activeTaskId (session fresh) = None"
    by (simp add: activeTaskValid_def fresh_def createInitialState_def)
  from p f
    claimScope_focus_independent [THEN conjunct2, THEN conjunct2, THEN mp, of panicked
      "''2026-01-01T00:00:03.000Z''" 1003 empty_fs literal_match "[''src/a.ts'']" True]
    claimScope_focus_independent [THEN conjunct2, THEN conjunct2, THEN mp, of fresh
      "''2026-01-01T00:00:03.000Z''" 1003 empty_fs literal_match "[''src/a.ts'']" True]
  show ?thesis by auto
qed

section \<open>Delegation\<close>

lemma executingA_eval:
  "executingA =
     \<lparr> version = ''3.0.0'',
       session = \<lparr> sessionId = ''5e5e5e5e-0000-4000-8000-000000000000'', startTime = 0,
                   currentState = EXECUTING, activeTaskId = Some ''task_9f8e7d6c'',
                   activeStepId = Some ''step_0a1b2c3d'', isVerified = False, intentFiled = False,
                   activeClaims = Some [\<lparr> path = ''src/a.ts'', exclusive = False,
                                          ownerTaskId = ''task_9f8e7d6c'', claim_createdAt = 1001 \<rparr>],
                   lastKnownFileHashes = Some [] \<rparr>,
       tasks = [(''task_9f8e7d6c'',
                 \<lparr> taskId = ''task_9f8e7d6c'', title = ''T'', goal = ''G'',
                   allowedScopes = [''src/a.ts''],
                   checklist = [\<lparr> item_id = ''1'', item_text = ''x'', item_status = Todo \<rparr>],
                   strictness = L2_LOGGED, testCommand = None, lastIntent = None,
                   filesToTouch = None, parentTaskId = None, subTaskIds = Some [],
                   claims = Some [\<lparr> path = ''src/a.ts'', exclusive = False,
                                    ownerTaskId = ''task_9f8e7d6c'', claim_createdAt = 1001 \<rparr>],
                   riskScore = None,
                   createdAt = ''2026-01-01T00:00:00.000Z'',
                   updatedAt = ''2026-01-01T00:00:00.000Z'' \<rparr>)],
       logs = [\<lparr> timestamp = ''2026-01-01T00:00:00.000Z'', action = ''dg_propose_task'',
                 log_taskId = Some ''task_9f8e7d6c'', details = Some ''Task proposed: T'' \<rparr>,
               \<lparr> timestamp = ''2026-01-01T00:00:01.000Z'', action = ''dg_claim_scope'',
                 log_taskId = Some ''task_9f8e7d6c'',
                 details = Some ''Granted active claims: src/a.ts'' \<rparr>,
               \<lparr> timestamp = ''2026-01-01T00:00:02.000Z'', action = ''dg_begin_step'',
                 log_taskId = Some ''task_9f8e7d6c'',
                 details = Some ''Started step: step_0a1b2c3d'' \<rparr>] \<rparr>"
  by (simp add: executingA_def claimedA_eval beginStep_def validateTransition_def log_def Let_def)

lemma covered_iff: "covered mm ps c = (\<exists>p \<in> set ps. c = p \<or> mm c p)"
  by (induction ps) auto

lemma validateDelegation_iff:
  "validateDelegation mm ps cs = (\<forall>c \<in> set cs. \<exists>p \<in> set ps. c = p \<or> mm c p)"
  by (induction cs) (auto simp: covered_iff)

text \<open>
  C5. In EXECUTING, with an active task that is registered and a fresh id for the child:
  when the parent holds a claim, \<^verbatim>\<open>delegateTask\<close> succeeds exactly when every child
  pattern equals some parent-claim pattern or is accepted by its matcher, and otherwise
  fails with the delegation error and changes nothing; when the parent holds no claim it
  succeeds. On success the child is registered under its id with \<^verbatim>\<open>parentTaskId\<close> the
  parent's id and an empty claim list, and its id is appended to the parent's child ids.
\<close>

theorem delegateTask_containment:
  assumes "currentState (session s) = EXECUTING"
    and "activeTaskId (session s) = Some ptid"
    and "map_of (tasks s) ptid = Some parent"
    and "map_of (tasks s) (''sub_'' @ take 8 uuid) = None"
  shows
    "(claims_or_empty parent \<noteq> [] \<longrightarrow>
        ((\<exists>t. fst (delegateTask now uuid mm subTitle subGoal subScope s) = Inr t)
           = (\<forall>c \<in> set subScope. \<exists>p \<in> set (map path (claims_or_empty parent)). c = p \<or> mm c p))
      \<and> ((\<exists>t. fst (delegateTask now uuid mm subTitle subGoal subScope s) = Inr t)
          \<or> delegateTask now uuid mm subTitle subGoal subScope s
             = (Inl (Error ''Delegation Failed: Child scope is not contained within Parent's active claims.''), s)))
   \<and> (claims_or_empty parent = [] \<longrightarrow>
        (\<exists>t. fst (delegateTask now uuid mm subTitle subGoal subScope s) = Inr t))
   \<and> (\<forall>t. fst (delegateTask now uuid mm subTitle subGoal subScope s) = Inr t \<longrightarrow>
          taskId t = ''sub_'' @ take 8 uuid
        \<and> parentTaskId t = Some ptid
        \<and> claims t = Some []
        \<and> map_of (tasks (snd (delegateTask now uuid mm subTitle subGoal subScope s))) (taskId t) = Some t
        \<and> map_option subTaskIds (map_of (tasks (snd (delegateTask now uuid mm subTitle subGoal subScope s))) ptid)
            = Some (Some ((case subTaskIds parent of None \<Rightarrow> [] | Some l \<Rightarrow> l) @ [taskId t])))"
proof -
  have ne: "ptid \<noteq> ''sub_'' @ take 8 uuid"
    using assms(3,4) by auto
  have v: "validateTransition ''dg_delegate'' [EXECUTING] s = None"
    using assms(1) by (simp add: validateTransition_def)
  show ?thesis
    using assms(2,3) ne v
    by (auto simp: delegateTask_def Let_def validateDelegation_iff update_conv' log_def)
qed

text \<open>
  The parent holds \<^verbatim>\<open>src/a.ts\<close>: delegating that path succeeds, delegating
  \<^verbatim>\<open>src/b.ts\<close> fails. A parent without claims may delegate \<^verbatim>\<open>src/b.ts\<close>.
\<close>

theorem delegateTask_containment_witness:
  "currentState (session executingA) = EXECUTING
   \<and> (\<exists>t. fst (delegateTask ''2026-01-01T00:00:03.000Z'' ''c0c0c0c0-0000-4000-8000-000000000000''
                 literal_match ''Child'' ''sub work'' [''src/a.ts''] executingA) = Inr t)
   \<and> (\<forall>t. fst (delegateTask ''2026-01-01T00:00:03.000Z'' ''c0c0c0c0-0000-4000-8000-000000000000''
                 literal_match ''Child'' ''sub work'' [''src/b.ts''] executingA) \<noteq> Inr t)
   \<and> currentState (session started) = EXECUTING
   \<and> (\<exists>t. fst (delegateTask ''2026-01-01T00:00:03.000Z'' ''c0c0c0c0-0000-4000-8000-000000000000''
                 literal_match ''Child'' ''sub work'' [''src/b.ts''] started) = Inr t)"
proof -
  have e1: "currentState (session executingA) = EXECUTING"
    and e2: "activeTaskId (session executingA) = Some ''task_9f8e7d6c''"
    and e3: "map_of (tasks executingA) ''task_9f8e7d6c'' = Some (snd (tasks executingA ! 0))"
    and e4: "map_of (tasks executingA) (''sub_'' @ take 8 ''c0c0c0c0-0000-4000-8000-000000000000'') = None"
    and e5: "claims_or_empty (snd (tasks executingA ! 0))
               = [\<lparr> path = ''src/a.ts'', exclusive = False,
                     ownerTaskId = ''task_9f8e7d6c'', claim_createdAt = 1001 \<rparr>]"
    by (simp_all add: executingA_eval claims_or_empty_def)
  have started_eq: "started = proposed\<lparr> session := (session proposed)\<lparr> activeStepId := Some ''step_0a1b2c3d'',
                                                                  currentState := EXECUTING \<rparr>,
                                        logs := logs started \<rparr>"
    by (simp add: started_def proposed_eval beginStep_def validateTransition_def log_def Let_def)
  have s1: "currentState (session started) = EXECUTING"
    and s2: "activeTaskId (session started) = Some ''task_9f8e7d6c''"
    using started_session by simp_all
  have s3: "map_of (tasks started) ''task_9f8e7d6c'' = Some (snd (tasks started ! 0))"
    and s4: "map_of (tasks started) (''sub_'' @ take 8 ''c0c0c0c0-0000-4000-8000-000000000000'') = None"
    and s5: "claims_or_empty (snd (tasks started ! 0)) = []"
    by (subst started_eq, simp add: proposed_eval claims_or_empty_def)+
  note held = delegateTask_containment [OF e1 e2 e3 e4, THEN conjunct1, THEN mp, THEN conjunct1]
  note free = delegateTask_containment [OF s1 s2 s3 s4, THEN conjunct2, THEN conjunct1, THEN mp, OF s5]
  have ok: "\<exists>t. fst (delegateTask ''2026-01-01T00:00:03.000Z'' ''c0c0c0c0-0000-4000-8000-000000000000''
                 literal_match ''Child'' ''sub work'' [''src/a.ts''] executingA) = Inr t"
    using held [of "''2026-01-01T00:00:03.000Z''" literal_match "''Child''" "''sub work''" "[''src/a.ts'']"]
    by (simp add: e5)
  have bad: "\<forall>t. fst (delegateTask ''2026-01-01T00:00:03.000Z'' ''c0c0c0c0-0000-4000-8000-000000000000''
                 literal_match ''Child'' ''sub work'' [''src/b.ts''] executingA) \<noteq> Inr t"
    using held [of "''2026-01-01T00:00:03.000Z''" literal_match "''Child''" "''sub work''" "[''src/b.ts'']"]
    by (simp add: e5 literal_match_def)
  show ?thesis
    using e1 s1 ok bad free by blast
qed

section \<open>Integrity check\<close>

lemma tag_new_modified: "f @ NEW_tag \<noteq> g @ MODIFIED_tag"
proof
  assume "f @ NEW_tag = g @ MODIFIED_tag"
  then have "rev (f @ NEW_tag) = rev (g @ MODIFIED_tag)" by simp
  then show False by (simp add: NEW_tag_def MODIFIED_tag_def)
qed

lemma tag_new_deleted: "f @ NEW_tag \<noteq> g @ DELETED_tag"
proof
  assume "f @ NEW_tag = g @ DELETED_tag"
  then have "rev (f @ NEW_tag) = rev (g @ DELETED_tag)" by simp
  then show False by (simp add: NEW_tag_def DELETED_tag_def)
qed

lemma tag_modified_deleted: "f @ MODIFIED_tag \<noteq> g @ DELETED_tag"
proof
  assume "f @ MODIFIED_tag = g @ DELETED_tag"
  then have "rev (f @ MODIFIED_tag) = rev (g @ DELETED_tag)" by simp
  then show False by (simp add: MODIFIED_tag_def DELETED_tag_def)
qed

lemmas tags = tag_new_modified tag_new_deleted tag_modified_deleted
  tag_new_modified [symmetric] tag_new_deleted [symmetric] tag_modified_deleted [symmetric]

lemma changed_mem:
  "d \<in> set (concat (map (changedEntry known) cur)) =
     (\<exists>f h. (f, h) \<in> set cur \<and>
        ((js_falsy (js_get known f) \<and> d = f @ NEW_tag)
         \<or> (\<not> js_falsy (js_get known f) \<and> \<not> js_get known f = Str h \<and> d = f @ MODIFIED_tag)))"
  by (auto simp: changedEntry_def NEW_tag_def MODIFIED_tag_def split: if_splits)

lemma deleted_mem:
  "d \<in> set (concat (map (deletedEntry mm pats cur) known)) =
     (\<exists>f k. (f, k) \<in> set known \<and> js_falsy (js_get cur f) \<and> (\<exists>p \<in> set pats. mm f p)
            \<and> d = f @ DELETED_tag)"
  by (auto simp: deletedEntry_def DELETED_tag_def list_ex_iff split: if_splits)

text \<open>
  On a proper hash record a read is falsy exactly for a name that is neither an own entry
  nor a member of the prototype, and it gives a hash text exactly for an own entry.
\<close>

lemma js_falsy_record:
  "hashRecord al \<Longrightarrow> js_falsy (js_get al f) = (map_of al f = None \<and> f \<notin> set prototypeNames)"
  by (cases "map_of al f") (auto simp: js_get_def hashRecord_def dest: map_of_SomeD)

lemma js_get_Str: "(js_get al f = Str h) = (map_of al f = Some h)"
  by (cases "map_of al f") (simp_all add: js_get_def)

lemma hashRecord_mem: "hashRecord al \<Longrightarrow> ((f, h) \<in> set al) = (map_of al f = Some h)"
  by (simp add: hashRecord_def)

lemma changed_mem_record:
  assumes hk: "hashRecord known" and hc: "hashRecord cur"
  shows "d \<in> set (concat (map (changedEntry known) cur)) =
     (\<exists>f h. map_of cur f = Some h \<and>
        (((map_of known f = None \<and> f \<notin> set prototypeNames) \<and> d = f @ NEW_tag)
         \<or> (\<not> (map_of known f = None \<and> f \<notin> set prototypeNames)
            \<and> \<not> map_of known f = Some h \<and> d = f @ MODIFIED_tag)))"
  by (simp only: changed_mem js_falsy_record [OF hk] js_get_Str hashRecord_mem [OF hc])

lemma deleted_mem_record:
  assumes hk: "hashRecord known" and hc: "hashRecord cur"
  shows "d \<in> set (concat (map (deletedEntry mm pats cur) known)) =
     (\<exists>f k. map_of known f = Some k \<and> (map_of cur f = None \<and> f \<notin> set prototypeNames)
            \<and> (\<exists>p \<in> set pats. mm f p) \<and> d = f @ DELETED_tag)"
  by (simp only: deleted_mem js_falsy_record [OF hc] hashRecord_mem [OF hk])

lemma healthCheck_no_claims:
  "activeClaims (session s) = None \<or> activeClaims (session s) = Some [] \<Longrightarrow>
     healthCheck mm fs s = \<lparr> status = NO_CLAIMS, dirtyFiles = [] \<rparr>"
  by (auto simp: healthCheck_def active_or_empty_def)

text \<open>
  What \<^verbatim>\<open>healthCheck\<close> lists, with a non-empty active-claim cache \<open>cl\<close>, the
  last-known-hash cache \<open>known\<close> and the current hashes both proper hash records. For a
  file whose name is no member of \<^verbatim>\<open>Object.prototype\<close>: \<open>file (NEW)\<close> exactly when it
  is hashed now and missing from the cache, \<open>file (MODIFIED)\<close> exactly when it is in both
  with different hashes, \<open>file (DELETED)\<close> exactly when it is in the cache, missing now,
  and matched by some claim pattern. For a file named like a member of the prototype:
  never \<open>(NEW)\<close> and never \<open>(DELETED)\<close>, and \<open>(MODIFIED)\<close> whenever it is hashed now
  and the cache does not hold that very hash. Nothing else is listed, and the status is
  \<^verbatim>\<open>DIRTY\<close> when the list is non-empty and \<^verbatim>\<open>CLEAN\<close> when it is empty.
\<close>

lemma healthCheck_listing:
  assumes ac: "activeClaims (session s) = Some cl" and ne: "cl \<noteq> []"
    and kn: "lastKnownFileHashes (session s) = Some known"
    and hk: "hashRecord known" and hc: "hashRecord (fs (map path cl))"
  shows
    "(\<forall>f. f \<notin> set prototypeNames \<longrightarrow>
          ((f @ '' (NEW)'' \<in> set (dirtyFiles (healthCheck mm fs s))) =
             (map_of (fs (map path cl)) f \<noteq> None \<and> map_of known f = None))
        \<and> ((f @ '' (MODIFIED)'' \<in> set (dirtyFiles (healthCheck mm fs s))) =
             (\<exists>h k. map_of (fs (map path cl)) f = Some h \<and> map_of known f = Some k \<and> k \<noteq> h))
        \<and> ((f @ '' (DELETED)'' \<in> set (dirtyFiles (healthCheck mm fs s))) =
             (map_of known f \<noteq> None \<and> map_of (fs (map path cl)) f = None
              \<and> (\<exists>p \<in> set (map path cl). mm f p))))
   \<and> (\<forall>f. f \<in> set prototypeNames \<longrightarrow>
          f @ '' (NEW)'' \<notin> set (dirtyFiles (healthCheck mm fs s))
        \<and> ((f @ '' (MODIFIED)'' \<in> set (dirtyFiles (healthCheck mm fs s))) =
             (\<exists>h. map_of (fs (map path cl)) f = Some h \<and> map_of known f \<noteq> Some h))
        \<and> f @ '' (DELETED)'' \<notin> set (dirtyFiles (healthCheck mm fs s)))
   \<and> (\<forall>d \<in> set (dirtyFiles (healthCheck mm fs s)).
          \<exists>f. d = f @ '' (NEW)'' \<or> d = f @ '' (MODIFIED)'' \<or> d = f @ '' (DELETED)'')
   \<and> status (healthCheck mm fs s)
        = (if dirtyFiles (healthCheck mm fs s) = [] then CLEAN else DIRTY)"
proof -
  define pats where "pats = map path cl"
  define cur where "cur = fs pats"
  define D where "D = concat (map (changedEntry known) cur) @ concat (map (deletedEntry mm pats cur) known)"
  have hc': "hashRecord cur"
    using hc by (simp add: cur_def pats_def)
  have df: "dirtyFiles (healthCheck mm fs s) = D"
    using ac ne kn
    by (simp add: healthCheck_def Let_def calculateFileHashes_def active_or_empty_def
          known_or_empty_def D_def cur_def pats_def)
  have st: "status (healthCheck mm fs s) = (if D = [] then CLEAN else DIRTY)"
    using ac ne kn
    by (simp add: healthCheck_def Let_def calculateFileHashes_def active_or_empty_def
          known_or_empty_def D_def cur_def pats_def)
  have mem: "\<And>d. d \<in> set D =
     ((\<exists>f h. map_of cur f = Some h \<and>
        (((map_of known f = None \<and> f \<notin> set prototypeNames) \<and> d = f @ NEW_tag)
         \<or> (\<not> (map_of known f = None \<and> f \<notin> set prototypeNames)
            \<and> \<not> map_of known f = Some h \<and> d = f @ MODIFIED_tag)))
      \<or> (\<exists>f k. map_of known f = Some k \<and> (map_of cur f = None \<and> f \<notin> set prototypeNames)
            \<and> (\<exists>p \<in> set pats. mm f p) \<and> d = f @ DELETED_tag))"
    by (simp only: D_def set_append Un_iff changed_mem_record [OF hk hc'] deleted_mem_record [OF hk hc'])
  have new: "\<And>f. f \<notin> set prototypeNames \<Longrightarrow>
               (f @ NEW_tag \<in> set D) = (map_of cur f \<noteq> None \<and> map_of known f = None)"
    unfolding mem by (auto simp: tags)
  have modified: "\<And>f. f \<notin> set prototypeNames \<Longrightarrow>
               (f @ MODIFIED_tag \<in> set D)
                 = (\<exists>h k. map_of cur f = Some h \<and> map_of known f = Some k \<and> k \<noteq> h)"
    unfolding mem by (auto simp: tags)
  have deleted: "\<And>f. f \<notin> set prototypeNames \<Longrightarrow>
               (f @ DELETED_tag \<in> set D)
                 = (map_of known f \<noteq> None \<and> map_of cur f = None \<and> (\<exists>p \<in> set pats. mm f p))"
    unfolding mem by (auto simp: tags)
  have inh_new: "\<And>f. f \<in> set prototypeNames \<Longrightarrow> f @ NEW_tag \<notin> set D"
    unfolding mem by (auto simp: tags)
  have inh_modified: "\<And>f. f \<in> set prototypeNames \<Longrightarrow>
               (f @ MODIFIED_tag \<in> set D) = (\<exists>h. map_of cur f = Some h \<and> map_of known f \<noteq> Some h)"
    unfolding mem by (auto simp: tags)
  have inh_deleted: "\<And>f. f \<in> set prototypeNames \<Longrightarrow> f @ DELETED_tag \<notin> set D"
    unfolding mem by (auto simp: tags)
  have kinds: "\<And>d. d \<in> set D \<Longrightarrow> \<exists>f. d = f @ NEW_tag \<or> d = f @ MODIFIED_tag \<or> d = f @ DELETED_tag"
    unfolding mem by blast
  have ordinary: "\<forall>f. f \<notin> set prototypeNames \<longrightarrow>
          ((f @ '' (NEW)'' \<in> set (dirtyFiles (healthCheck mm fs s))) =
             (map_of (fs (map path cl)) f \<noteq> None \<and> map_of known f = None))
        \<and> ((f @ '' (MODIFIED)'' \<in> set (dirtyFiles (healthCheck mm fs s))) =
             (\<exists>h k. map_of (fs (map path cl)) f = Some h \<and> map_of known f = Some k \<and> k \<noteq> h))
        \<and> ((f @ '' (DELETED)'' \<in> set (dirtyFiles (healthCheck mm fs s))) =
             (map_of known f \<noteq> None \<and> map_of (fs (map path cl)) f = None
              \<and> (\<exists>p \<in> set (map path cl). mm f p)))"
    using new modified deleted
    by (simp add: df pats_def cur_def NEW_tag_def MODIFIED_tag_def DELETED_tag_def)
  have inherited: "\<forall>f. f \<in> set prototypeNames \<longrightarrow>
          f @ '' (NEW)'' \<notin> set (dirtyFiles (healthCheck mm fs s))
        \<and> ((f @ '' (MODIFIED)'' \<in> set (dirtyFiles (healthCheck mm fs s))) =
             (\<exists>h. map_of (fs (map path cl)) f = Some h \<and> map_of known f \<noteq> Some h))
        \<and> f @ '' (DELETED)'' \<notin> set (dirtyFiles (healthCheck mm fs s))"
    using inh_new inh_modified inh_deleted
    by (simp add: df pats_def cur_def NEW_tag_def MODIFIED_tag_def DELETED_tag_def)
  have listed: "\<forall>d \<in> set (dirtyFiles (healthCheck mm fs s)).
          \<exists>f. d = f @ '' (NEW)'' \<or> d = f @ '' (MODIFIED)'' \<or> d = f @ '' (DELETED)''"
    using kinds by (simp add: df NEW_tag_def MODIFIED_tag_def DELETED_tag_def)
  have stat: "status (healthCheck mm fs s)
        = (if dirtyFiles (healthCheck mm fs s) = [] then CLEAN else DIRTY)"
    unfolding df st ..
  from ordinary inherited listed stat show ?thesis
    by (intro conjI)
qed

text \<open>The sessions of the examples, as far as \<^verbatim>\<open>healthCheck\<close> reads them.\<close>

lemma snapshotA_session:
  "activeClaims (session snapshotA)
     = Some [\<lparr> path = ''src/a.ts'', exclusive = False, ownerTaskId = ''task_9f8e7d6c'',
               claim_createdAt = 1001 \<rparr>]
   \<and> lastKnownFileHashes (session snapshotA)
       = Some [(''src/a.ts'', ''0cc175b9c0f1b6a831c399e269772661'')]"
  by (simp add: snapshotA_def proposed_eval claimScope_def Let_def refreshActiveClaims_def
        claims_or_empty_def active_or_empty_def known_or_empty_def calculateFileHashes_def
        one_file_fs_def spread_def log_def)

lemma rootClaimed_session:
  "activeClaims (session rootClaimed)
     = Some [\<lparr> path = ''toString'', exclusive = False, ownerTaskId = ''task_9f8e7d6c'',
               claim_createdAt = 1001 \<rparr>,
             \<lparr> path = ''constructor'', exclusive = False, ownerTaskId = ''task_9f8e7d6c'',
               claim_createdAt = 1001 \<rparr>]
   \<and> lastKnownFileHashes (session rootClaimed)
       = Some [(''toString'', ''0cc175b9c0f1b6a831c399e269772661'')]"
  by (simp add: rootClaimed_def proposed_eval claimScope_def Let_def refreshActiveClaims_def
        claims_or_empty_def active_or_empty_def known_or_empty_def calculateFileHashes_def
        root_before_fs_def spread_def log_def)

text \<open>
  A file in a directory: a claim on a file that appears later lists it as new; after a
  claim that cached its hash, the untouched file is clean, the edited file is modified,
  the removed file is deleted. Without claims there is nothing to check.
\<close>

lemma healthCheck_ordinary_files:
  "healthCheck literal_match one_file_fs claimedA
     = \<lparr> status = DIRTY, dirtyFiles = [''src/a.ts (NEW)''] \<rparr>
   \<and> healthCheck literal_match one_file_fs snapshotA = \<lparr> status = CLEAN, dirtyFiles = [] \<rparr>
   \<and> healthCheck literal_match edited_fs snapshotA
       = \<lparr> status = DIRTY, dirtyFiles = [''src/a.ts (MODIFIED)''] \<rparr>
   \<and> healthCheck literal_match empty_fs snapshotA
       = \<lparr> status = DIRTY, dirtyFiles = [''src/a.ts (DELETED)''] \<rparr>
   \<and> healthCheck literal_match one_file_fs fresh = \<lparr> status = NO_CLAIMS, dirtyFiles = [] \<rparr>"
proof (intro conjI)
  show "healthCheck literal_match one_file_fs claimedA
          = \<lparr> status = DIRTY, dirtyFiles = [''src/a.ts (NEW)''] \<rparr>"
    by (simp add: claimedA_eval healthCheck_def Let_def active_or_empty_def known_or_empty_def
          calculateFileHashes_def one_file_fs_def changedEntry_def js_get_def prototypeNames_def)
  show "healthCheck literal_match one_file_fs snapshotA = \<lparr> status = CLEAN, dirtyFiles = [] \<rparr>"
    by (simp add: snapshotA_session healthCheck_def Let_def active_or_empty_def known_or_empty_def
          calculateFileHashes_def one_file_fs_def changedEntry_def deletedEntry_def js_get_def)
  show "healthCheck literal_match edited_fs snapshotA
          = \<lparr> status = DIRTY, dirtyFiles = [''src/a.ts (MODIFIED)''] \<rparr>"
    by (simp add: snapshotA_session healthCheck_def Let_def active_or_empty_def known_or_empty_def
          calculateFileHashes_def edited_fs_def changedEntry_def deletedEntry_def js_get_def)
  show "healthCheck literal_match empty_fs snapshotA
          = \<lparr> status = DIRTY, dirtyFiles = [''src/a.ts (DELETED)''] \<rparr>"
    by (simp add: snapshotA_session healthCheck_def Let_def active_or_empty_def known_or_empty_def
          calculateFileHashes_def empty_fs_def deletedEntry_def js_get_def prototypeNames_def
          literal_match_def)
  show "healthCheck literal_match one_file_fs fresh = \<lparr> status = NO_CLAIMS, dirtyFiles = [] \<rparr>"
    by (simp add: fresh_def createInitialState_def healthCheck_def active_or_empty_def)
qed

text \<open>
  C6, the failing input. The task holds claims on the root files \<^verbatim>\<open>toString\<close> and
  \<^verbatim>\<open>constructor\<close>; the cache holds the hash of \<^verbatim>\<open>toString\<close>, the only file there
  when the claims were granted. Then \<^verbatim>\<open>toString\<close> is removed and \<^verbatim>\<open>constructor\<close>
  is created. \<^verbatim>\<open>constructor\<close> is present now and absent from the cache, yet it is
  listed as \<open>(MODIFIED)\<close>, not \<open>(NEW)\<close>: the read of the cache finds the member that
  every object inherits under that name. \<^verbatim>\<open>toString\<close> is in the cache, absent now and
  matched by a claim pattern, yet it is not listed as \<open>(DELETED)\<close>: the read of the
  current hashes finds the inherited member. With \<^verbatim>\<open>toString\<close> removed and nothing
  created the answer is \<^verbatim>\<open>CLEAN\<close>.
\<close>

theorem healthCheck_inherited_names:
  "lastKnownFileHashes (session rootClaimed)
     = Some [(''toString'', ''0cc175b9c0f1b6a831c399e269772661'')]
   \<and> map path (active_or_empty (session rootClaimed)) = [''toString'', ''constructor'']
   \<and> calculateFileHashes root_after_fs (map path (active_or_empty (session rootClaimed)))
       = [(''constructor'', ''92eb5ffee6ae2fec3ad71c777531578f'')]
   \<and> literal_match ''toString'' ''toString''
   \<and> healthCheck literal_match root_after_fs rootClaimed
       = \<lparr> status = DIRTY, dirtyFiles = [''constructor (MODIFIED)''] \<rparr>
   \<and> calculateFileHashes empty_fs (map path (active_or_empty (session rootClaimed))) = []
   \<and> healthCheck literal_match empty_fs rootClaimed = \<lparr> status = CLEAN, dirtyFiles = [] \<rparr>"
  by (simp add: rootClaimed_session healthCheck_def Let_def active_or_empty_def known_or_empty_def
        calculateFileHashes_def root_after_fs_def empty_fs_def changedEntry_def deletedEntry_def
        js_get_def prototypeNames_def literal_match_def)

section \<open>Risk score\<close>

lemma busy_log_counts: "length busy_log = 15 \<and> length (remdups busy_log) = 15 \<and> card (set busy_log) = 15"
proof -
  have d: "distinct busy_log"
    by (simp add: busy_log_def)
  have l: "length busy_log = 15"
    by (simp add: busy_log_def)
  from d l show ?thesis
    by (simp add: distinct_card distinct_remdups_id)
qed

lemma app_test_isTest: "isTest ''src/app.test.ts''"
  by (simp add: isTest_def toLowerCase_def lower_char_def)

text \<open>
  C7, as the code has it. With \<open>c\<close> entries and \<open>a\<close> distinct authors listed, the score
  is \<open>min(100, 2c + 5a)\<close> for a path that is no test or spec file, and
  \<open>min(100, max(0, 2c + 5a - 20))\<close> for one that is: the 20 are taken off before the cap
  at 100, not after. No repository and a failing log command give score 0 with their
  reasons. \<^verbatim>\<open>analyzeRisk\<close> returns that result and, when the session has a registered
  active task, stores the larger of the task's score so far (0 when it has none) and the
  new score.
\<close>

theorem calculateRisk_score:
  "score (calculateRisk (LogOk emails) target)
     = (if isTest target
        then min 100 (max 0 (2 * int (length emails) + 5 * int (card (set emails)) - 20))
        else min 100 (2 * int (length emails) + 5 * int (card (set emails))))
   \<and> calculateRisk NotRepo target = \<lparr> score = 0, reason = NotAGitRepository \<rparr>
   \<and> calculateRisk LogFailed target = \<lparr> score = 0, reason = ErrorAccessingGitLogs \<rparr>
   \<and> (activeTaskId (session s) = Some tid \<and> tid \<noteq> [] \<and> map_of (tasks s) tid = Some task \<longrightarrow>
        fst (analyzeRisk git target s) = Inr (calculateRisk git target)
      \<and> map_option riskScore (map_of (tasks (snd (analyzeRisk git target s))) tid)
          = Some (Some (max (case riskScore task of None \<Rightarrow> 0 | Some r \<Rightarrow> r)
                            (score (calculateRisk git target)))))
   \<and> (activeTaskId (session s) = None \<longrightarrow>
        analyzeRisk git target s = (Inr (calculateRisk git target), s))"
proof (intro conjI impI)
  show "score (calculateRisk (LogOk emails) target)
     = (if isTest target
        then min 100 (max 0 (2 * int (length emails) + 5 * int (card (set emails)) - 20))
        else min 100 (2 * int (length emails) + 5 * int (card (set emails))))"
    by (simp add: calculateRisk_def Let_def length_remdups_card_conv mult.commute)
  show "calculateRisk NotRepo target = \<lparr> score = 0, reason = NotAGitRepository \<rparr>"
    by (simp add: calculateRisk_def)
  show "calculateRisk LogFailed target = \<lparr> score = 0, reason = ErrorAccessingGitLogs \<rparr>"
    by (simp add: calculateRisk_def)
next
  assume a: "activeTaskId (session s) = Some tid \<and> tid \<noteq> [] \<and> map_of (tasks s) tid = Some task"
  then show "fst (analyzeRisk git target s) = Inr (calculateRisk git target)"
    by (simp add: analyzeRisk_def Let_def)
  from a show "map_option riskScore (map_of (tasks (snd (analyzeRisk git target s))) tid)
          = Some (Some (max (case riskScore task of None \<Rightarrow> 0 | Some r \<Rightarrow> r)
                            (score (calculateRisk git target))))"
    by (simp add: analyzeRisk_def Let_def update_conv')
next
  assume "activeTaskId (session s) = None"
  then show "analyzeRisk git target s = (Inr (calculateRisk git target), s)"
    by (simp add: analyzeRisk_def Let_def)
qed

theorem calculateRisk_score_witness:
  "activeTaskId (session proposed) = Some ''task_9f8e7d6c''
   \<and> fst (analyzeRisk (LogOk busy_log) ''src/index.ts'' proposed)
       = Inr (calculateRisk (LogOk busy_log) ''src/index.ts'')
   \<and> score (calculateRisk (LogOk busy_log) ''src/index.ts'') = 100
   \<and> activeTaskId (session fresh) = None
   \<and> analyzeRisk NotRepo ''src/index.ts'' fresh
       = (Inr \<lparr> score = 0, reason = NotAGitRepository \<rparr>, fresh)"
proof -
  have a: "activeTaskId (session proposed) = Some ''task_9f8e7d6c'' \<and> ''task_9f8e7d6c'' \<noteq> []
           \<and> map_of (tasks proposed) ''task_9f8e7d6c'' = Some (snd (tasks proposed ! 0))"
    by (simp add: proposed_eval)
  have n: "\<not> isTest ''src/index.ts''"
    by (simp add: isTest_def toLowerCase_def lower_char_def)
  have f: "activeTaskId (session fresh) = None"
    by (simp add: fresh_def createInitialState_def)
  note t = calculateRisk_score [where s = proposed and tid = "''task_9f8e7d6c''"
             and task = "snd (tasks proposed ! 0)" and git = "LogOk busy_log"
             and target = "''src/index.ts''" and emails = busy_log]
  note u = calculateRisk_score [where s = fresh and git = NotRepo and target = "''src/index.ts''"]
  have sc: "score (calculateRisk (LogOk busy_log) ''src/index.ts'') = 100"
    using t [THEN conjunct1] n busy_log_counts by simp
  have an: "fst (analyzeRisk (LogOk busy_log) ''src/index.ts'' proposed)
              = Inr (calculateRisk (LogOk busy_log) ''src/index.ts'')"
    using t [THEN conjunct2, THEN conjunct2, THEN conjunct2, THEN conjunct1, THEN mp, OF a]
    by simp
  have nr: "analyzeRisk NotRepo ''src/index.ts'' fresh
              = (Inr \<lparr> score = 0, reason = NotAGitRepository \<rparr>, fresh)"
    using u [THEN conjunct2, THEN conjunct2, THEN conjunct2, THEN conjunct2, THEN mp, OF f]
      u [THEN conjunct2, THEN conjunct1]
    by simp
  show ?thesis
    using a sc an f nr by simp
qed

text \<open>
  A test file with 15 commits by 15 authors: \<open>2c + 5a = 105\<close>. The code answers
  \<open>min(100, 105 - 20) = 85\<close>; capping first and subtracting after would give 80.
\<close>

theorem calculateRisk_test_file_counterexample:
  "isTest ''src/app.test.ts''
   \<and> score (calculateRisk (LogOk busy_log) ''src/app.test.ts'') = 85
   \<and> score (calculateRisk (LogOk busy_log) ''src/app.test.ts'')
       \<noteq> max 0 (min 100 (2 * int (length busy_log) + 5 * int (card (set busy_log))) - 20)"
  using app_test_isTest busy_log_counts
  by (simp add: calculateRisk_def Let_def)

section \<open>The session invariant\<close>

text \<open>
  The invariant assumed of the active task id holds in a fresh session and is kept by
  every operation: tasks are never removed from the record, and the active id is only
  ever set to a task registered in the same step.
\<close>

lemma valid_log: "activeTaskValid (log now act tid det s) = activeTaskValid s"
  by (simp add: activeTaskValid_def log_session log_tasks split: option.splits)

lemma valid_fresh: "activeTaskValid (createInitialState uuid nowMs)"
  by (simp add: activeTaskValid_def createInitialState_def)

lemma valid_proposeTask: "activeTaskValid s \<Longrightarrow> activeTaskValid (snd (proposeTask now uuid ttl gl scopes items sa s))"
  by (auto simp: proposeTask_def Let_def log_session log_tasks activeTaskValid_def update_conv' split: option.splits)

lemma valid_beginStep: "activeTaskValid s \<Longrightarrow> activeTaskValid (snd (beginStep now uuid sid s))"
  by (auto simp: beginStep_def Let_def log_session log_tasks activeTaskValid_def split: option.splits)

lemma valid_reportIntent: "activeTaskValid s \<Longrightarrow> activeTaskValid (snd (reportIntent now uuid i fl s))"
  by (auto simp: reportIntent_def Let_def log_session log_tasks activeTaskValid_def update_conv' split: option.splits)

lemma valid_checkpoint: "activeTaskValid s \<Longrightarrow> activeTaskValid (snd (checkpoint now cf ir nw fs summ ids s))"
  by (auto simp: checkpoint_def Let_def log_session log_tasks activeTaskValid_def update_conv' refreshActiveClaims_def split: option.splits)

lemma valid_verify: "activeTaskValid s \<Longrightarrow> activeTaskValid (snd (verify now run s))"
  by (auto simp: verify_def Let_def log_session log_tasks activeTaskValid_def split: option.splits)

lemma valid_explainChange: "activeTaskValid s \<Longrightarrow> activeTaskValid (snd (explainChange now d cf s))"
  by (auto simp: explainChange_def Let_def log_session log_tasks activeTaskValid_def split: option.splits)

lemma valid_setTestCommand: "activeTaskValid s \<Longrightarrow> activeTaskValid (snd (setTestCommand now c s))"
  by (auto simp: setTestCommand_def Let_def log_session log_tasks activeTaskValid_def update_conv' split: option.splits)

lemma valid_panic: "activeTaskValid s \<Longrightarrow> activeTaskValid (snd (panic now r s))"
  by (auto simp: panic_def Let_def log_session log_tasks activeTaskValid_def split: option.splits)

lemma valid_claimScope: "activeTaskValid s \<Longrightarrow> activeTaskValid (snd (claimScope now nowMs fs mm ps ex s))"
  by (auto simp: claimScope_def Let_def log_session log_tasks activeTaskValid_def update_conv' refreshActiveClaims_def split: option.splits)

lemma valid_delegateTask: "activeTaskValid s \<Longrightarrow> activeTaskValid (snd (delegateTask now uuid mm t g sc s))"
  by (auto simp: delegateTask_def Let_def log_session log_tasks activeTaskValid_def update_conv' split: option.splits)

lemma valid_analyzeRisk: "activeTaskValid s \<Longrightarrow> activeTaskValid (snd (analyzeRisk git p s))"
  by (auto simp: analyzeRisk_def Let_def activeTaskValid_def update_conv' split: option.splits)

lemma valid_reset: "activeTaskValid (reset now uuid nowMs s)"
  by (simp add: reset_def valid_log valid_fresh)

end
